theory Spec2Isabelle
  imports Complex_Main "HOL-Library.Log_Nat" "HOL-Library.Monad_Syntax"
begin

section \<open>Strings\<close>

text \<open>
  A Python \<open>str\<close> is modelled as a \<open>string\<close> whose characters are the code
  points 0..255 (Latin-1 text): \<open>length\<close> counts code points, as Python's \<open>len\<close> does.
  The character classes below are those of Python 3 on these code points.
\<close>

definition lower_char :: "char \<Rightarrow> char" where
  \<comment> \<open>\<open>str.lower\<close> on one code point below 256: A-Z and the accented capitals
      U+00C0..U+00DE (U+00D7, the multiplication sign, apart) move up by 32.\<close>
  "lower_char c =
     (let n = (of_char c :: nat)
      in if (65 \<le> n \<and> n \<le> 90) \<or> (192 \<le> n \<and> n \<le> 222 \<and> n \<noteq> 215)
         then char_of (n + 32) else c)"

definition lower :: "string \<Rightarrow> string" where
  "lower s = map lower_char s"

definition is_space :: "char \<Rightarrow> bool" where
  \<comment> \<open>\<open>str.isspace\<close> and the regex class \<open>\s\<close>: TAB, LF, VT, FF, CR, the separators
      U+001C..U+001F, SPACE, NEL (U+0085) and NBSP (U+00A0).\<close>
  "is_space c =
     (let n = (of_char c :: nat)
      in (9 \<le> n \<and> n \<le> 13) \<or> (28 \<le> n \<and> n \<le> 32) \<or> n = 133 \<or> n = 160)"

definition is_digit :: "char \<Rightarrow> bool" where
  \<comment> \<open>The regex class \<open>\d\<close>: the decimal digits 0-9.\<close>
  "is_digit c = (let n = (of_char c :: nat) in 48 \<le> n \<and> n \<le> 57)"

definition is_word :: "char \<Rightarrow> bool" where
  \<comment> \<open>The regex class \<open>\w\<close>: the underscore and the alphanumeric code points, which below
      256 are 0-9, A-Z, a-z, U+00AA, U+00B2, U+00B3, U+00B5, U+00B9, U+00BA,
      U+00BC..U+00BE and U+00C0..U+00FF without U+00D7 and U+00F7.\<close>
  "is_word c =
     (let n = (of_char c :: nat)
      in (48 \<le> n \<and> n \<le> 57) \<or> (65 \<le> n \<and> n \<le> 90) \<or> n = 95 \<or> (97 \<le> n \<and> n \<le> 122)
         \<or> n = 170 \<or> n = 178 \<or> n = 179 \<or> n = 181 \<or> n = 185 \<or> n = 186
         \<or> (188 \<le> n \<and> n \<le> 190) \<or> (192 \<le> n \<and> n \<noteq> 215 \<and> n \<noteq> 247))"

definition newline :: char where
  "newline = CHR 0x0A"

fun startswith :: "string \<Rightarrow> string \<Rightarrow> bool" where
  \<comment> \<open>\<open>startswith s p\<close> is Python's \<open>s.startswith(p)\<close>.\<close>
  "startswith s [] = True"
| "startswith [] (p # ps) = False"
| "startswith (c # cs) (p # ps) = (c = p \<and> startswith cs ps)"

fun contains :: "string \<Rightarrow> string \<Rightarrow> bool" where
  \<comment> \<open>\<open>contains sub s\<close> is Python's \<open>sub in s\<close> on strings.\<close>
  "contains sub [] = (sub = [])"
| "contains sub (c # cs) = (startswith (c # cs) sub \<or> contains sub cs)"

definition strip :: "string \<Rightarrow> string" where
  \<comment> \<open>\<open>s.strip()\<close>: leading and trailing whitespace removed.\<close>
  "strip s = rev (dropWhile is_space (rev (dropWhile is_space s)))"

function collapse_whitespace :: "string \<Rightarrow> string" where
  \<comment> \<open>\<open>re.sub(r'\s+', ' ', s)\<close>: every maximal run of whitespace becomes one space.\<close>
  "collapse_whitespace [] = []"
| "collapse_whitespace (c # cs) =
     (if is_space c then CHR '' '' # collapse_whitespace (dropWhile is_space cs)
      else c # collapse_whitespace cs)"
  by pat_completeness auto
termination
  by (relation "measure length") (auto simp: length_dropWhile_le less_Suc_eq_le)

function count_words :: "string \<Rightarrow> nat" where
  \<comment> \<open>\<open>len(s.split())\<close>: the number of maximal runs of non-whitespace.\<close>
  "count_words [] = 0"
| "count_words (c # cs) =
     (if is_space c then count_words cs
      else Suc (count_words (dropWhile (\<lambda>x. \<not> is_space x) cs)))"
  by pat_completeness auto
termination
  by (relation "measure length") (auto simp: length_dropWhile_le less_Suc_eq_le)

fun before_separator :: "string \<Rightarrow> string \<Rightarrow> string" where
  \<comment> \<open>\<open>s.split(sep)[0]\<close>: the part of \<open>s\<close> before the first occurrence of \<open>sep\<close>
      (all of \<open>s\<close> when there is none).\<close>
  "before_separator sep [] = []"
| "before_separator sep (c # cs) =
     (if startswith (c # cs) sep then [] else c # before_separator sep cs)"

section \<open>The regular expressions of the goal validator\<close>

text \<open>
  Each regular expression of \<open>goal_validator.py\<close> is written out as the matcher the
  backtracking engine amounts to on it. A matcher takes the text at the current position
  and returns the text after the match, or \<open>None\<close>. In all the patterns below the
  classes of neighbouring repetitions are disjoint (\<open>\s+\<close> is followed by \<open>\d\<close>,
  \<open>\w\<close> or a letter, \<open>\d+\<close> by \<open>:\<close>, \<open>.\<close>, \<open>%\<close> or \<open>\s\<close>, \<open>\w+\<close> by
  \<open>\s\<close>), so a greedy repetition that takes the whole run is the only way to match and no
  backtracking into it can succeed; the one exception, \<open>\n\s*\n\<close>, is treated where it
  occurs.
\<close>

fun match_ci :: "string \<Rightarrow> string \<Rightarrow> string option" where
  \<comment> \<open>A literal under \<open>re.IGNORECASE\<close>.\<close>
  "match_ci [] s = Some s"
| "match_ci (p # ps) [] = None"
| "match_ci (p # ps) (c # cs) =
     (if lower_char c = lower_char p then match_ci ps cs else None)"

fun match_lit :: "string \<Rightarrow> string \<Rightarrow> string option" where
  \<comment> \<open>A literal, case-sensitive.\<close>
  "match_lit [] s = Some s"
| "match_lit (p # ps) [] = None"
| "match_lit (p # ps) (c # cs) = (if c = p then match_lit ps cs else None)"

definition match_plus :: "(char \<Rightarrow> bool) \<Rightarrow> string \<Rightarrow> string option" where
  \<comment> \<open>\<open>C+\<close> for a character class \<open>C\<close>, greedy.\<close>
  "match_plus P s =
     (case s of [] \<Rightarrow> None | c # cs \<Rightarrow> if P c then Some (dropWhile P cs) else None)"

definition match_star :: "(char \<Rightarrow> bool) \<Rightarrow> string \<Rightarrow> string option" where
  \<comment> \<open>\<open>C*\<close> for a character class \<open>C\<close>, greedy.\<close>
  "match_star P s = Some (dropWhile P s)"

fun match_times :: "nat \<Rightarrow> (char \<Rightarrow> bool) \<Rightarrow> string \<Rightarrow> string option" where
  \<comment> \<open>\<open>C{n}\<close>: exactly \<open>n\<close> characters of the class.\<close>
  "match_times 0 P s = Some s"
| "match_times (Suc n) P [] = None"
| "match_times (Suc n) P (c # cs) = (if P c then match_times n P cs else None)"

fun match_any :: "string list \<Rightarrow> string \<Rightarrow> string option" where
  \<comment> \<open>An alternation of case-sensitive literals, tried in order.\<close>
  "match_any [] s = None"
| "match_any (p # ps) s = (case match_lit p s of Some r \<Rightarrow> Some r | None \<Rightarrow> match_any ps s)"

fun re_search :: "(string \<Rightarrow> string option) \<Rightarrow> string \<Rightarrow> bool" where
  \<comment> \<open>\<open>re.search(pattern, s)\<close> as a truth value: does the matcher succeed at some
      position of \<open>s\<close> (the end included)?\<close>
  "re_search m [] = (m [] \<noteq> None)"
| "re_search m (c # cs) = (if m (c # cs) \<noteq> None then True else re_search m cs)"

subsection \<open>Goal markers and \<open>re.findall\<close>\<close>

datatype marker = Goal_N | Objective_N | Goal_Colon | Objective_Colon

fun match_marker :: "marker \<Rightarrow> string \<Rightarrow> string option" where
  \<comment> \<open>\<open>GOAL\s+\d+:\<close>, \<open>OBJECTIVE\s+\d+:\<close>, \<open>Goal:\<close> and \<open>Objective:\<close>, all under
      \<open>re.IGNORECASE\<close>.\<close>
  "match_marker Goal_N s =
     match_ci ''GOAL'' s \<bind> match_plus is_space \<bind> match_plus is_digit \<bind> match_ci '':''"
| "match_marker Objective_N s =
     match_ci ''OBJECTIVE'' s \<bind> match_plus is_space \<bind> match_plus is_digit \<bind> match_ci '':''"
| "match_marker Goal_Colon s = match_ci ''Goal:'' s"
| "match_marker Objective_Colon s = match_ci ''Objective:'' s"

definition at_end :: "string \<Rightarrow> bool" where
  \<comment> \<open>\<open>$\<close> without \<open>re.MULTILINE\<close>: at the end of the text, or just before a newline
      that ends the text.\<close>
  "at_end s = (s = [] \<or> s = [newline])"

fun lazy_body :: "marker \<Rightarrow> string \<Rightarrow> string \<times> string" where
  \<comment> \<open>\<open>.*?(?=MARKER|$)\<close> under \<open>re.DOTALL\<close>: the shortest run of characters, of any
      kind, after which the marker matches or the text ends. Returns the run and the rest.\<close>
  "lazy_body k [] = ([], [])"
| "lazy_body k (c # cs) =
     (if match_marker k (c # cs) \<noteq> None \<or> at_end (c # cs) then ([], c # cs)
      else (let (body, rest) = lazy_body k cs in (c # body, rest)))"

function findall :: "marker \<Rightarrow> string \<Rightarrow> string list" where
  \<comment> \<open>\<open>re.findall(MARKER.*?(?=MARKER|$), s, re.DOTALL | re.IGNORECASE)\<close>: the
      non-overlapping matches from left to right; the search resumes where a match ended.\<close>
  "findall k s =
     (case match_marker k s of
        Some r \<Rightarrow>
          (let (body, rest) = lazy_body k r
           in (take (length s - length r) s @ body) # findall k rest)
      | None \<Rightarrow> (case s of [] \<Rightarrow> [] | c # cs \<Rightarrow> findall k cs))"
  by pat_completeness auto

lemma match_ci_length: "match_ci p s = Some r \<Longrightarrow> length s = length p + length r"
  by (induction p s rule: match_ci.induct) (auto split: if_splits)

lemma match_lit_length: "match_lit p s = Some r \<Longrightarrow> length s = length p + length r"
  by (induction p s rule: match_lit.induct) (auto split: if_splits)

lemma match_plus_length: "match_plus P s = Some r \<Longrightarrow> length r < length s"
  by (auto simp: match_plus_def less_Suc_eq_le length_dropWhile_le split: list.splits if_splits)

lemma match_marker_length: "match_marker k s = Some r \<Longrightarrow> length r < length s"
proof (cases k)
  case Goal_N
  assume "match_marker k s = Some r"
  with Goal_N obtain s1 where "match_ci ''GOAL'' s = Some s1"
    by (auto simp: bind_eq_Some_conv)
  moreover from \<open>match_marker k s = Some r\<close> Goal_N calculation
  obtain s2 s3 where "match_plus is_space s1 = Some s2" "match_plus is_digit s2 = Some s3"
    "match_ci '':'' s3 = Some r"
    by (auto simp: bind_eq_Some_conv)
  ultimately show ?thesis
    by (auto dest!: match_ci_length match_plus_length)
next
  case Objective_N
  assume "match_marker k s = Some r"
  with Objective_N obtain s1 where "match_ci ''OBJECTIVE'' s = Some s1"
    by (auto simp: bind_eq_Some_conv)
  moreover from \<open>match_marker k s = Some r\<close> Objective_N calculation
  obtain s2 s3 where "match_plus is_space s1 = Some s2" "match_plus is_digit s2 = Some s3"
    "match_ci '':'' s3 = Some r"
    by (auto simp: bind_eq_Some_conv)
  ultimately show ?thesis
    by (auto dest!: match_ci_length match_plus_length)
next
  case Goal_Colon
  assume "match_marker k s = Some r"
  with Goal_Colon show ?thesis by (auto dest!: match_ci_length)
next
  case Objective_Colon
  assume "match_marker k s = Some r"
  with Objective_Colon show ?thesis by (auto dest!: match_ci_length)
qed

lemma lazy_body_length: "length (snd (lazy_body k s)) \<le> length s"
  by (induction s) (auto split: prod.splits)

termination findall
proof (relation "measure (\<lambda>(k, s). length s)")
  show "wf (measure (\<lambda>(k, s). length s))" by simp
next
  fix k s r and p :: "string \<times> string" and body rest
  assume "match_marker k s = Some r" and "p = lazy_body k r" and "(body, rest) = p"
  then have "length r < length s" and "rest = snd (lazy_body k r)"
    by (auto dest: match_marker_length simp: snd_def split: prod.splits)
  moreover have "length (snd (lazy_body k r)) \<le> length r" by (rule lazy_body_length)
  ultimately show "((k, rest), (k, s)) \<in> measure (\<lambda>(k, s). length s)" by simp
next
  fix k s c cs
  assume "s = c # cs"
  then show "((k, cs), (k, s)) \<in> measure (\<lambda>(k, s). length s)" by simp
qed

subsection \<open>The fallback split\<close>

definition blank_line_sep :: "string \<Rightarrow> string option" where
  \<comment> \<open>\<open>\n\s*\n\<close>: a newline, then the whitespace run after it up to and including its
      last newline (the greedy \<open>\s*\<close> gives characters back until a newline follows).\<close>
  "blank_line_sep s =
     (case s of
        [] \<Rightarrow> None
      | c # cs \<Rightarrow>
          if c = newline
          then (let n = length (dropWhile (\<lambda>x. x \<noteq> newline) (rev (takeWhile is_space cs)))
                in if n = 0 then None else Some (drop n cs))
          else None)"

definition numbered_sep :: "string \<Rightarrow> string option" where
  \<comment> \<open>\<open>\d+\.\s+\<close>\<close>
  "numbered_sep s = match_plus is_digit s \<bind> match_lit ''.'' \<bind> match_plus is_space"

definition separator :: "string \<Rightarrow> string option" where
  \<comment> \<open>\<open>\n\s*\n|\d+\.\s+\<close>\<close>
  "separator s = (case blank_line_sep s of Some r \<Rightarrow> Some r | None \<Rightarrow> numbered_sep s)"

function re_split :: "string \<Rightarrow> string \<Rightarrow> string list" where
  \<comment> \<open>\<open>re.split(r'\n\s*\n|\d+\.\s+', s)\<close>; the second argument holds, reversed, the
      characters read since the last separator. A separator is never empty.\<close>
  "re_split s acc =
     (case separator s of
        Some r \<Rightarrow> rev acc # re_split r []
      | None \<Rightarrow> (case s of [] \<Rightarrow> [rev acc] | c # cs \<Rightarrow> re_split cs (c # acc)))"
  by pat_completeness auto

lemma separator_length: "separator s = Some r \<Longrightarrow> length r < length s"
proof -
  assume a: "separator s = Some r"
  show ?thesis
  proof (cases "blank_line_sep s")
    case (Some r')
    with a have "r' = r" by (simp add: separator_def)
    with Some show ?thesis
      by (auto simp: blank_line_sep_def Let_def split: list.splits if_splits)
  next
    case None
    with a have "numbered_sep s = Some r" by (simp add: separator_def)
    then obtain s1 s2 where "match_plus is_digit s = Some s1" "match_lit ''.'' s1 = Some s2"
      "match_plus is_space s2 = Some r"
      by (auto simp: numbered_sep_def bind_eq_Some_conv)
    then show ?thesis by (auto dest!: match_plus_length match_lit_length)
  qed
qed

termination re_split
proof (relation "measure (\<lambda>(s, acc). length s)")
  show "wf (measure (\<lambda>(s, acc). length s))" by simp
next
  fix s acc r
  assume "separator s = Some r"
  then show "((r, []), (s, acc)) \<in> measure (\<lambda>(s, acc). length s)"
    by (simp add: separator_length)
next
  fix s acc c cs
  assume "s = c # cs"
  then show "((cs, c # acc), (s, acc)) \<in> measure (\<lambda>(s, acc). length s)" by simp
qed

subsection \<open>The patterns of the SMART criteria\<close>

definition measurable_patterns :: "(string \<Rightarrow> string option) list" where
  \<comment> \<open>\<open>\d+%\<close>, \<open>\d+\.\d+\<close>, \<open>\$\d+\<close> and
      \<open>\d+\s*(seconds?|minutes?|hours?|days?|weeks?)\<close>, case-sensitive. The optional
      \<open>s\<close> that ends the last pattern plays no part in whether it matches.\<close>
  "measurable_patterns =
     [\<lambda>s. match_plus is_digit s \<bind> match_lit ''%'',
      \<lambda>s. match_plus is_digit s \<bind> match_lit ''.'' \<bind> match_plus is_digit,
      \<lambda>s. match_lit ''$'' s \<bind> match_plus is_digit,
      \<lambda>s. match_plus is_digit s \<bind> match_star is_space
            \<bind> match_any [''second'', ''minute'', ''hour'', ''day'', ''week'']]"

definition time_bound_patterns :: "(string \<Rightarrow> string option) list" where
  \<comment> \<open>\<open>by\s+\w+\s+\d{4}\<close>, \<open>within\s+\d+\s+\w+\<close> and \<open>end\s+of\s+\w+\<close>, under
      \<open>re.IGNORECASE\<close>.\<close>
  "time_bound_patterns =
     [\<lambda>s. match_ci ''by'' s \<bind> match_plus is_space \<bind> match_plus is_word
            \<bind> match_plus is_space \<bind> match_times 4 is_digit,
      \<lambda>s. match_ci ''within'' s \<bind> match_plus is_space \<bind> match_plus is_digit
            \<bind> match_plus is_space \<bind> match_plus is_word,
      \<lambda>s. match_ci ''end'' s \<bind> match_plus is_space \<bind> match_ci ''of''
            \<bind> match_plus is_space \<bind> match_plus is_word]"

section \<open>Epic generator (\<open>epic_generator.py\<close>)\<close>

subsection \<open>Rule tables of \<open>EpicGeneratorAgent.__init__\<close>\<close>

definition team_categories :: "(string \<times> string list) list" where
  \<comment> \<open>A Python dict iterates in insertion order: an association list in that order.\<close>
  "team_categories =
    [(''Frontend'', [''UI'', ''UX'', ''React'', ''Angular'', ''Vue'', ''mobile'', ''web'', ''interface'']),
     (''Backend'', [''API'', ''service'', ''database'', ''server'', ''microservice'', ''integration'']),
     (''DevOps'', [''deployment'', ''infrastructure'', ''CI/CD'', ''monitoring'', ''security'']),
     (''QA'', [''testing'', ''quality'', ''automation'', ''validation'', ''verification'']),
     (''Data'', [''analytics'', ''reporting'', ''data'', ''metrics'', ''dashboard'']),
     (''Security'', [''security'', ''authentication'', ''authorization'', ''compliance''])]"

datatype effort_size = XS | S | M | L | XL | XXL

fun effort_guidelines_points :: "effort_size \<Rightarrow> int" where
  \<comment> \<open>\<open>self.effort_guidelines[size]['points']\<close>\<close>
  "effort_guidelines_points XS = 1"
| "effort_guidelines_points S = 2"
| "effort_guidelines_points M = 3"
| "effort_guidelines_points L = 5"
| "effort_guidelines_points XL = 8"
| "effort_guidelines_points XXL = 13"

subsection \<open>Data\<close>

text \<open>
  A goal is a dict whose keys may be absent (\<open>goal.get(key, default)\<close>). The random
  identifiers (\<open>id\<close>, \<open>epic_id\<close>), the regex-derived Epic title and the time stamp are
  left out of the records: no rollup, effort or team field is computed from them.
\<close>

record goal =
  g_text :: "string option"
  g_original_text :: "string option"
  g_title :: "string option"
  g_priority :: "string option"
  g_category :: "string option"

record template =
  t_title :: string
  t_description :: string
  t_acceptance_criteria :: "string list"
  t_effort_size :: effort_size

record feature =
  f_title :: string
  f_description :: string
  f_acceptance_criteria :: "string list"
  f_priority :: string
  f_effort_size :: effort_size
  f_effort_points :: int
  f_assigned_team :: string
  f_status :: string

record epic =
  e_description :: string
  e_priority :: string
  e_category :: string
  e_acceptance_criteria :: "string list"
  e_original_goal :: string
  e_status :: string
  e_features :: "feature list"
  e_feature_count :: int
  e_total_effort :: int

record summary =
  total_epics :: int
  total_features :: int
  total_effort_points :: int
  estimated_weeks :: int
  teams_involved :: int

record generation_result =
  r_epics :: "epic list"
  r_features :: "feature list"
  r_team_assignments :: "(string \<times> string list) list"
  r_summary :: summary

subsection \<open>Operations\<close>

definition goal_text_of :: "goal \<Rightarrow> string" where
  \<comment> \<open>\<open>goal.get('text', goal.get('original_text', ''))\<close>\<close>
  "goal_text_of g =
     (case g_text g of Some t \<Rightarrow> t
      | None \<Rightarrow> (case g_original_text g of Some t \<Rightarrow> t | None \<Rightarrow> []))"

definition generate_epic_from_goal :: "goal \<Rightarrow> epic" where
  "generate_epic_from_goal g =
     (let goal_text = goal_text_of g
      in \<lparr> e_description =
             (if length goal_text > 200 then take 200 goal_text @ ''...'' else goal_text),
           e_priority = (case g_priority g of Some p \<Rightarrow> p | None \<Rightarrow> ''Medium''),
           e_category = (case g_category g of Some c \<Rightarrow> c | None \<Rightarrow> ''Business''),
           e_acceptance_criteria =
             [''All features are implemented and tested'',
              ''Business requirements are met'',
              ''Performance targets are achieved''],
           e_original_goal = goal_text,
           e_status = ''To Do'',
           e_features = [],
           e_feature_count = 0,
           e_total_effort = 0 \<rparr>)"

definition get_feature_templates :: "string \<Rightarrow> string \<Rightarrow> template list" where
  "get_feature_templates goal_text category =
    [\<lparr> t_title = ''Requirements Analysis and Design'',
       t_description = ''Analyze requirements and create technical design'',
       t_acceptance_criteria = [''Requirements documented'', ''Design approved''],
       t_effort_size = M \<rparr>,
     \<lparr> t_title = ''Core Implementation'',
       t_description = ''Implement core functionality'',
       t_acceptance_criteria = [''Core features working'', ''Unit tests passing''],
       t_effort_size = L \<rparr>,
     \<lparr> t_title = ''User Interface Development'',
       t_description = ''Create user interface components'',
       t_acceptance_criteria = [''UI components created'', ''Responsive design''],
       t_effort_size = M \<rparr>,
     \<lparr> t_title = ''Integration and Testing'',
       t_description = ''Integrate components and perform testing'',
       t_acceptance_criteria = [''Integration complete'', ''All tests passing''],
       t_effort_size = M \<rparr>,
     \<lparr> t_title = ''Documentation and Deployment'',
       t_description = ''Create documentation and deploy to production'',
       t_acceptance_criteria = [''Documentation complete'', ''Successfully deployed''],
       t_effort_size = S \<rparr>]"

fun any_keyword_in :: "string list \<Rightarrow> string \<Rightarrow> bool" where
  \<comment> \<open>The inner loop of \<open>_suggest_team_assignment\<close>: does some keyword, lower-cased,
      occur in the lower-cased title?\<close>
  "any_keyword_in [] title_lower = False"
| "any_keyword_in (keyword # keywords) title_lower =
     (if contains (lower keyword) title_lower then True
      else any_keyword_in keywords title_lower)"

fun suggest_team_loop :: "(string \<times> string list) list \<Rightarrow> string \<Rightarrow> string" where
  \<comment> \<open>The outer loop, returning at the first team with a matching keyword.\<close>
  "suggest_team_loop [] title_lower = ''Backend''"
| "suggest_team_loop ((team, keywords) # rest) title_lower =
     (if any_keyword_in keywords title_lower then team
      else suggest_team_loop rest title_lower)"

definition suggest_team_assignment :: "string \<Rightarrow> string" where
  "suggest_team_assignment feature_title =
     suggest_team_loop team_categories (lower feature_title)"

definition make_feature :: "epic \<Rightarrow> template \<Rightarrow> feature" where
  \<comment> \<open>The body of the loop of \<open>_generate_features_for_epic\<close>.\<close>
  "make_feature ep t =
     \<lparr> f_title = t_title t,
       f_description = t_description t,
       f_acceptance_criteria = t_acceptance_criteria t,
       f_priority = e_priority ep,
       f_effort_size = t_effort_size t,
       f_effort_points = effort_guidelines_points (t_effort_size t),
       f_assigned_team = suggest_team_assignment (t_title t),
       f_status = ''To Do'' \<rparr>"

definition generate_features_for_epic :: "epic \<Rightarrow> goal \<Rightarrow> feature list" where
  "generate_features_for_epic ep g =
     map (make_feature ep) (take 5 (get_feature_templates (goal_text_of g) (e_category ep)))"

fun assign_teams_loop ::
  "feature list \<Rightarrow> (string \<times> string list) list \<Rightarrow> (string \<times> string list) list" where
  \<comment> \<open>\<open>_assign_teams_to_features\<close>: a new team gets an empty list at the end of the
      dict, then the title is appended to the team's list.\<close>
  "assign_teams_loop [] team_assignments = team_assignments"
| "assign_teams_loop (f # fs) team_assignments =
     (let team = f_assigned_team f;
          d = (if team \<notin> set (map fst team_assignments)
               then team_assignments @ [(team, [])] else team_assignments)
      in assign_teams_loop fs
           (map (\<lambda>(k, titles). if k = team then (k, titles @ [f_title f]) else (k, titles)) d))"

definition assign_teams_to_features :: "feature list \<Rightarrow> (string \<times> string list) list" where
  "assign_teams_to_features features = assign_teams_loop features []"

definition process_goal :: "goal \<Rightarrow> epic" where
  \<comment> \<open>The body of the main loop: the Epic with its features and rollups.\<close>
  "process_goal g =
     (let ep = generate_epic_from_goal g;
          features = generate_features_for_epic ep g
      in ep \<lparr> e_features := features,
              e_feature_count := int (length features),
              e_total_effort := sum_list (map f_effort_points features) \<rparr>)"

fun epics_loop :: "goal list \<Rightarrow> epic list \<Rightarrow> feature list \<Rightarrow> epic list \<times> feature list" where
  "epics_loop [] generated_epics all_features = (generated_epics, all_features)"
| "epics_loop (g # gs) generated_epics all_features =
     (let ep = process_goal g
      in epics_loop gs (generated_epics @ [ep]) (all_features @ e_features ep))"

definition generate_epics_and_features :: "goal list \<Rightarrow> generation_result" where
  "generate_epics_and_features goals =
     (let (generated_epics, all_features) = epics_loop goals [] [];
          team_assignments = assign_teams_to_features all_features;
          total_effort = sum_list (map e_total_effort generated_epics)
      in \<lparr> r_epics = generated_epics,
           r_features = all_features,
           r_team_assignments = team_assignments,
           r_summary =
             \<lparr> total_epics = int (length generated_epics),
               total_features = int (length all_features),
               total_effort_points = total_effort,
               estimated_weeks = max 1 (total_effort div 20),
               teams_involved = int (length team_assignments) \<rparr> \<rparr>)"

text \<open>
  Two readings of "a keyword of the list occurs as a substring of the lower-cased title",
  stated without reference to the search loops. In \<open>has_keyword\<close> the keyword is
  lower-cased before the test, as \<open>keyword.lower() in title_lower\<close> does; in
  \<open>has_keyword_as_declared\<close> the keyword is taken as the table declares it, which is how
  the specification words the test.
\<close>

definition has_keyword :: "string list \<Rightarrow> string \<Rightarrow> bool" where
  "has_keyword keywords feature_title \<longleftrightarrow>
     (\<exists>k \<in> set keywords. \<exists>pre post. lower feature_title = pre @ lower k @ post)"

definition has_keyword_as_declared :: "string list \<Rightarrow> string \<Rightarrow> bool" where
  "has_keyword_as_declared keywords feature_title \<longleftrightarrow>
     (\<exists>k \<in> set keywords. \<exists>pre post. lower feature_title = pre @ k @ post)"

text \<open>
  The keys of the team-assignment dict grow by this step: a team not yet a key is added at
  the end.
\<close>

definition add_key :: "string list \<Rightarrow> string \<Rightarrow> string list" where
  "add_key ks t = (if t \<in> set ks then ks else ks @ [t])"

subsection \<open>A sample input\<close>

definition demo_goal :: goal where
  "demo_goal = \<lparr> g_text = Some ''Build reporting dashboard'', g_original_text = None,
                  g_title = Some ''Dashboard'', g_priority = Some ''High'',
                  g_category = Some ''Data'' \<rparr>"

section \<open>Floating point\<close>

text \<open>
  A Python \<open>float\<close> is an IEEE 754 double. The finite doubles are rational numbers, and an
  arithmetic operation returns the exact result rounded to the nearest double, ties to the
  even significand (53 bits). The scores of this program stay between \<open>-2\<close> and
  \<open>1000\<close> and are multiples of \<open>2 ^ -60\<close>, far from overflow and from the subnormal
  range, so the exponent is left unbounded and there is no infinity or NaN.
\<close>

type_synonym double = rat

definition pow2 :: "int \<Rightarrow> rat" where
  "pow2 e = (if 0 \<le> e then of_int (2 ^ nat e) else Fract 1 (2 ^ nat (- e)))"

definition ilog2 :: "rat \<Rightarrow> int" where
  \<comment> \<open>For \<open>x > 0\<close>, the exponent \<open>e\<close> with \<open>2 ^ e \<le> x < 2 ^ (e + 1)\<close>, from the
      bit lengths of numerator and denominator.\<close>
  "ilog2 x =
     (let (p, q) = quotient_of x; d = bitlen p - bitlen q
      in if pow2 d \<le> x then d else d - 1)"

definition round_half_even :: "rat \<Rightarrow> int" where
  \<comment> \<open>The nearest integer, a tie going to the even one.\<close>
  "round_half_even x =
     (let f = \<lfloor>x\<rfloor>; r = x - of_int f
      in if r < 1 / 2 then f else if 1 / 2 < r then f + 1 else if even f then f else f + 1)"

definition rnd :: "rat \<Rightarrow> double" where
  \<comment> \<open>The nearest double: with \<open>2 ^ e\<close> the unit in the last of 53 places of \<open>x\<close>,
      the nearest multiple of \<open>2 ^ e\<close>. \<open>Fract m d\<close> is the fraction \<open>m / d\<close>.\<close>
  "rnd x =
     (if x = 0 then 0
      else let e = ilog2 \<bar>x\<bar> - 52
           in if e \<le> 0
              then Fract (round_half_even (x * of_int (2 ^ nat (- e)))) (2 ^ nat (- e))
              else of_int (round_half_even (x / of_int (2 ^ nat e)) * 2 ^ nat e))"

definition fl :: "rat \<Rightarrow> double" where
  \<comment> \<open>A decimal literal of the source, such as \<open>0.2\<close>: the nearest double.\<close>
  "fl q = rnd q"

definition fadd :: "double \<Rightarrow> double \<Rightarrow> double" where
  "fadd x y = rnd (x + y)"

definition fsub :: "double \<Rightarrow> double \<Rightarrow> double" where
  "fsub x y = rnd (x - y)"

definition fmul :: "double \<Rightarrow> double \<Rightarrow> double" where
  "fmul x y = rnd (x * y)"

definition fdiv :: "double \<Rightarrow> double \<Rightarrow> double" where
  \<comment> \<open>Only used with a divisor that is not zero.\<close>
  "fdiv x y = rnd (x / y)"

definition py_int :: "double \<Rightarrow> int" where
  \<comment> \<open>\<open>int(x)\<close> on a float: truncation towards zero.\<close>
  "py_int x = (if 0 \<le> x then \<lfloor>x\<rfloor> else \<lceil>x\<rceil>)"

section \<open>Goal validator (\<open>goal_validator.py\<close>)\<close>

subsection \<open>Segmentation: \<open>_extract_goals\<close>\<close>

definition goal_patterns :: "marker list" where
  "goal_patterns = [Goal_N, Objective_N, Goal_Colon, Objective_Colon]"

definition structured_goals :: "string \<Rightarrow> string list" where
  \<comment> \<open>The first loop: the stripped matches of every pattern, accumulated in pattern
      order.\<close>
  "structured_goals text_content =
     concat (map (\<lambda>pattern. map strip (findall pattern text_content)) goal_patterns)"

definition candidate_goals :: "string \<Rightarrow> string list" where
  \<comment> \<open>The list \<open>goals\<close> before the clean-up loop: the structured matches or, when
      there is none, the stripped fragments of the split that are longer than 50.\<close>
  "candidate_goals text_content =
     (let goals = structured_goals text_content
      in if goals = []
         then map strip (filter (\<lambda>goal. length (strip goal) > 50) (re_split text_content []))
         else goals)"

definition normalize_goal :: "string \<Rightarrow> string" where
  \<comment> \<open>\<open>re.sub(r'\s+', ' ', goal.strip())\<close>\<close>
  "normalize_goal goal = collapse_whitespace (strip goal)"

fun clean_goals :: "string list \<Rightarrow> string list \<Rightarrow> string list" where
  \<comment> \<open>The clean-up loop; the second argument is \<open>cleaned_goals\<close>.\<close>
  "clean_goals [] cleaned_goals = cleaned_goals"
| "clean_goals (goal # goals) cleaned_goals =
     (let cleaned_goal = normalize_goal goal
      in clean_goals goals
           (if length cleaned_goal > 20 then cleaned_goals @ [cleaned_goal] else cleaned_goals))"

definition extract_goals :: "string \<Rightarrow> string list" where
  "extract_goals text_content = take 10 (clean_goals (candidate_goals text_content) [])"

subsection \<open>The SMART criteria tables\<close>

definition specific_keywords :: "string list" where
  "specific_keywords = [''implement'', ''develop'', ''create'', ''build'', ''establish'', ''achieve'']"

definition specific_anti_keywords :: "string list" where
  "specific_anti_keywords = [''improve'', ''enhance'', ''better'', ''optimize'', ''increase'']"

definition measurable_keywords :: "string list" where
  "measurable_keywords =
     [''%'', ''percent'', ''number'', ''count'', ''metric'', ''kpi'', ''score'', ''rating'']"

definition achievable_keywords :: "string list" where
  "achievable_keywords = [''realistic'', ''feasible'', ''attainable'', ''possible'']"

definition achievable_warning_keywords :: "string list" where
  "achievable_warning_keywords =
     [''revolutionary'', ''groundbreaking'', ''100%'', ''perfect'', ''eliminate all'']"

definition relevant_keywords :: "string list" where
  "relevant_keywords =
     [''business value'', ''revenue'', ''customer'', ''user'', ''efficiency'', ''cost'']"

definition relevant_contexts :: "string list" where
  "relevant_contexts =
     [''business'', ''customer'', ''user experience'', ''performance'', ''security'']"

definition time_bound_keywords :: "string list" where
  "time_bound_keywords =
     [''by'', ''within'', ''deadline'', ''timeline'', ''end of'', ''complete by'']"

subsection \<open>Scoring\<close>

fun add_per_keyword :: "string list \<Rightarrow> string \<Rightarrow> double \<Rightarrow> double \<Rightarrow> double" where
  \<comment> \<open>\<open>for word in words: if word in text_lower: score += delta\<close>\<close>
  "add_per_keyword [] text_lower delta score = score"
| "add_per_keyword (word # words) text_lower delta score =
     add_per_keyword words text_lower delta
       (if contains word text_lower then fadd score delta else score)"

fun sub_per_keyword :: "string list \<Rightarrow> string \<Rightarrow> double \<Rightarrow> double \<Rightarrow> double" where
  \<comment> \<open>\<open>for word in words: if word in text_lower: score -= delta\<close>\<close>
  "sub_per_keyword [] text_lower delta score = score"
| "sub_per_keyword (word # words) text_lower delta score =
     sub_per_keyword words text_lower delta
       (if contains word text_lower then fsub score delta else score)"

fun add_per_pattern ::
  "(string \<Rightarrow> string option) list \<Rightarrow> string \<Rightarrow> double \<Rightarrow> double \<Rightarrow> double" where
  \<comment> \<open>\<open>for pattern in patterns: if re.search(pattern, goal_text): score += delta\<close>\<close>
  "add_per_pattern [] goal_text delta score = score"
| "add_per_pattern (pattern # patterns) goal_text delta score =
     add_per_pattern patterns goal_text delta
       (if re_search pattern goal_text then fadd score delta else score)"

definition clamp01 :: "double \<Rightarrow> double" where
  \<comment> \<open>\<open>min(1.0, max(0.0, score))\<close>\<close>
  "clamp01 score = min 1 (max 0 score)"

definition check_specific :: "string \<Rightarrow> double" where
  "check_specific goal_text =
     (let text_lower = lower goal_text;
          score = add_per_keyword specific_keywords text_lower (fl (2 / 10)) 0;
          score = sub_per_keyword specific_anti_keywords text_lower (fl (1 / 10)) score;
          score = (if count_words goal_text > 20 then fadd score (fl (2 / 10)) else score)
      in clamp01 score)"

definition check_measurable :: "string \<Rightarrow> double" where
  "check_measurable goal_text =
     (let text_lower = lower goal_text;
          score = add_per_keyword measurable_keywords text_lower (fl (2 / 10)) 0;
          score = add_per_pattern measurable_patterns goal_text (fl (3 / 10)) score;
          score = (if contains ''success criteria'' text_lower \<or> contains ''metrics'' text_lower
                   then fadd score (fl (3 / 10)) else score)
      in clamp01 score)"

definition check_achievable :: "string \<Rightarrow> double" where
  "check_achievable goal_text =
     (let text_lower = lower goal_text;
          score = sub_per_keyword achievable_warning_keywords text_lower (fl (2 / 10)) (fl (7 / 10));
          score = add_per_keyword achievable_keywords text_lower (fl (1 / 10)) score
      in clamp01 score)"

definition check_relevant :: "string \<Rightarrow> double" where
  "check_relevant goal_text =
     (let text_lower = lower goal_text;
          score = add_per_keyword relevant_keywords text_lower (fl (2 / 10)) 0;
          score = (if contains ''business value'' text_lower \<or> contains ''impact'' text_lower
                   then fadd score (fl (3 / 10)) else score);
          score = add_per_keyword relevant_contexts text_lower (fl (1 / 10)) score
      in clamp01 score)"

definition check_time_bound :: "string \<Rightarrow> double" where
  "check_time_bound goal_text =
     (let text_lower = lower goal_text;
          score = add_per_keyword time_bound_keywords text_lower (fl (2 / 10)) 0;
          score = add_per_pattern time_bound_patterns goal_text (fl (4 / 10)) score;
          score = (if contains ''pi'' text_lower \<or> contains ''program increment'' text_lower
                   then fadd score (fl (3 / 10)) else score)
      in clamp01 score)"

subsection \<open>Analysis of one goal: \<open>_analyze_single_goal\<close>\<close>

text \<open>
  The title and the improved rewrite of a goal are regex and template text that no score,
  issue or recommendation depends on; they are left out of the record, as is the time stamp
  of the report.
\<close>

record assessment =
  a_specific :: bool
  a_measurable :: bool
  a_achievable :: bool
  a_relevant :: bool
  a_time_bound :: bool

record validated_goal =
  vg_original_text :: string
  vg_smart_assessment :: assessment
  vg_smart_score :: int
  vg_issues :: "string list"
  vg_recommendations :: "string list"

definition analyze_single_goal :: "string \<Rightarrow> nat \<Rightarrow> validated_goal" where
  "analyze_single_goal goal_text goal_number =
     (let issues = [];
          recommendations = [];
          smart_score = 0;
          specific_score = check_specific goal_text;
          specific = (specific_score > fl (4 / 10));
          issues = (if \<not> specific
                    then issues @ [''Goal lacks specificity - too vague or general'']
                    else issues);
          recommendations = (if \<not> specific
                    then recommendations @ [''Be more specific about what exactly will be accomplished'']
                    else recommendations);
          smart_score = fadd smart_score (fmul specific_score 20);
          measurable_score = check_measurable goal_text;
          measurable = (measurable_score > fl (3 / 10));
          issues = (if \<not> measurable
                    then issues @ [''Goal lacks measurable success criteria'']
                    else issues);
          recommendations = (if \<not> measurable
                    then recommendations @ [''Add specific metrics, numbers, or quantifiable outcomes'']
                    else recommendations);
          smart_score = fadd smart_score (fmul measurable_score 20);
          achievable_score = check_achievable goal_text;
          achievable = (achievable_score > fl (3 / 10));
          issues = (if \<not> achievable
                    then issues @ [''Goal may be unrealistic or overly ambitious'']
                    else issues);
          recommendations = (if \<not> achievable
                    then recommendations @ [''Ensure the goal is realistic given available resources and time'']
                    else recommendations);
          smart_score = fadd smart_score (fmul achievable_score 20);
          relevant_score = check_relevant goal_text;
          relevant = (relevant_score > fl (3 / 10));
          issues = (if \<not> relevant
                    then issues @ [''Goal lacks clear business relevance or value'']
                    else issues);
          recommendations = (if \<not> relevant
                    then recommendations @ [''Clearly state the business value and impact'']
                    else recommendations);
          smart_score = fadd smart_score (fmul relevant_score 20);
          time_bound_score = check_time_bound goal_text;
          time_bound = (time_bound_score > fl (3 / 10));
          issues = (if \<not> time_bound
                    then issues @ [''Goal lacks clear timeline or deadline'']
                    else issues);
          recommendations = (if \<not> time_bound
                    then recommendations @ [''Add specific deadlines and milestones'']
                    else recommendations);
          smart_score = fadd smart_score (fmul time_bound_score 20)
      in \<lparr> vg_original_text = goal_text,
           vg_smart_assessment =
             \<lparr> a_specific = specific, a_measurable = measurable, a_achievable = achievable,
               a_relevant = relevant, a_time_bound = time_bound \<rparr>,
           vg_smart_score = py_int smart_score,
           vg_issues = issues,
           vg_recommendations = recommendations \<rparr>)"

subsection \<open>The report: \<open>validate_goals\<close>\<close>

definition determine_quality_level :: "int \<Rightarrow> string" where
  "determine_quality_level smart_score =
     (if smart_score \<ge> 90 then ''Excellent''
      else if smart_score \<ge> 75 then ''Good''
      else if smart_score \<ge> 60 then ''Fair''
      else if smart_score \<ge> 40 then ''Poor''
      else ''Very Poor'')"

definition issue_type_of :: "string \<Rightarrow> string" where
  \<comment> \<open>\<open>issue.split(' - ')[0] if ' - ' in issue else issue\<close>\<close>
  "issue_type_of issue =
     (if contains '' - '' issue then before_separator '' - '' issue else issue)"

fun count_issues :: "string list \<Rightarrow> (string \<rightharpoonup> int) \<Rightarrow> (string \<rightharpoonup> int)" where
  \<comment> \<open>The loop that fills the dict \<open>issue_counts\<close>.\<close>
  "count_issues [] issue_counts = issue_counts"
| "count_issues (issue # rest) issue_counts =
     (let issue_type = issue_type_of issue
      in count_issues rest
           (issue_counts(issue_type \<mapsto> (case issue_counts issue_type of Some n \<Rightarrow> n | None \<Rightarrow> 0) + 1)))"

definition get_count :: "(string \<rightharpoonup> int) \<Rightarrow> string \<Rightarrow> int" where
  \<comment> \<open>\<open>issue_counts.get(key, 0)\<close>\<close>
  "get_count issue_counts key = (case issue_counts key of Some n \<Rightarrow> n | None \<Rightarrow> 0)"

definition targeted_recommendations :: "validated_goal list \<Rightarrow> string list" where
  \<comment> \<open>\<open>_generate_overall_recommendations\<close> up to the four tests: the list
      \<open>recommendations\<close> before the general ones are appended. The threshold
      \<open>len(validated_goals) * 0.5\<close> is a float.\<close>
  "targeted_recommendations validated_goals =
     (let recommendations = [];
          all_issues = concat (map vg_issues validated_goals);
          issue_counts = count_issues all_issues Map.empty;
          half = fmul (of_int (int (length validated_goals))) (fl (5 / 10));
          recommendations =
            (if of_int (get_count issue_counts ''Goal lacks specificity'') > half
             then recommendations @ [''Focus on making goals more specific and actionable'']
             else recommendations);
          recommendations =
            (if of_int (get_count issue_counts ''Goal lacks measurable success criteria'') > half
             then recommendations @ [''Add quantifiable metrics and KPIs to all goals'']
             else recommendations);
          recommendations =
            (if of_int (get_count issue_counts ''Goal lacks clear timeline'') > half
             then recommendations @ [''Establish clear deadlines and milestones for all goals'']
             else recommendations);
          recommendations =
            (if of_int (get_count issue_counts ''Goal lacks clear business relevance'') > half
             then recommendations @ [''Clearly articulate business value and impact for each goal'']
             else recommendations)
      in recommendations)"

definition general_recommendations :: "string list" where
  "general_recommendations =
     [''Consider breaking down large goals into smaller, manageable objectives'',
      ''Ensure goals align with overall PI objectives and business strategy'',
      ''Review and validate goals with key stakeholders'',
      ''Establish regular check-ins and progress reviews'']"

definition generate_overall_recommendations :: "validated_goal list \<Rightarrow> string list" where
  "generate_overall_recommendations validated_goals =
     take 6 (targeted_recommendations validated_goals @ general_recommendations)"

record report =
  rp_original_text :: string
  rp_goals_count :: int
  rp_goals :: "validated_goal list"
  rp_smart_score :: int
  rp_quality_level :: string
  rp_recommendations :: "string list"

fun analyze_loop ::
  "string list \<Rightarrow> nat \<Rightarrow> validated_goal list \<Rightarrow> int \<Rightarrow> validated_goal list \<times> int" where
  \<comment> \<open>\<open>for i, goal_text in enumerate(goals)\<close>, with \<open>validated_goals\<close> and
      \<open>total_smart_score\<close> as the state.\<close>
  "analyze_loop [] i validated_goals total_smart_score = (validated_goals, total_smart_score)"
| "analyze_loop (goal_text # rest) i validated_goals total_smart_score =
     (let goal_analysis = analyze_single_goal goal_text (i + 1)
      in analyze_loop rest (i + 1) (validated_goals @ [goal_analysis])
           (total_smart_score + vg_smart_score goal_analysis))"

definition validate_goals :: "string \<Rightarrow> report" where
  "validate_goals text_content =
     (let goals = extract_goals text_content;
          (validated_goals, total_smart_score) = analyze_loop goals 0 [] 0;
          overall_smart_score =
            (if goals \<noteq> []
             then py_int (fdiv (of_int total_smart_score) (of_int (int (length goals))))
             else 0)
      in \<lparr> rp_original_text = text_content,
           rp_goals_count = int (length goals),
           rp_goals = validated_goals,
           rp_smart_score = overall_smart_score,
           rp_quality_level = determine_quality_level overall_smart_score,
           rp_recommendations = generate_overall_recommendations validated_goals \<rparr>)"

subsection \<open>The SMART dimensions, for stating properties\<close>

datatype dimension = Specific | Measurable | Achievable | Relevant | Time_Bound

definition dimensions :: "dimension list" where
  \<comment> \<open>The order in which \<open>_analyze_single_goal\<close> goes through the criteria.\<close>
  "dimensions = [Specific, Measurable, Achievable, Relevant, Time_Bound]"

fun passes :: "assessment \<Rightarrow> dimension \<Rightarrow> bool" where
  \<comment> \<open>\<open>smart_assessment[dim]\<close>\<close>
  "passes a Specific = a_specific a"
| "passes a Measurable = a_measurable a"
| "passes a Achievable = a_achievable a"
| "passes a Relevant = a_relevant a"
| "passes a Time_Bound = a_time_bound a"

fun raw_score :: "dimension \<Rightarrow> string \<Rightarrow> double" where
  "raw_score Specific = check_specific"
| "raw_score Measurable = check_measurable"
| "raw_score Achievable = check_achievable"
| "raw_score Relevant = check_relevant"
| "raw_score Time_Bound = check_time_bound"

fun issue_text :: "dimension \<Rightarrow> string" where
  "issue_text Specific = ''Goal lacks specificity - too vague or general''"
| "issue_text Measurable = ''Goal lacks measurable success criteria''"
| "issue_text Achievable = ''Goal may be unrealistic or overly ambitious''"
| "issue_text Relevant = ''Goal lacks clear business relevance or value''"
| "issue_text Time_Bound = ''Goal lacks clear timeline or deadline''"

fun recommendation_text :: "dimension \<Rightarrow> string" where
  "recommendation_text Specific = ''Be more specific about what exactly will be accomplished''"
| "recommendation_text Measurable = ''Add specific metrics, numbers, or quantifiable outcomes''"
| "recommendation_text Achievable = ''Ensure the goal is realistic given available resources and time''"
| "recommendation_text Relevant = ''Clearly state the business value and impact''"
| "recommendation_text Time_Bound = ''Add specific deadlines and milestones''"

definition failed_count :: "dimension \<Rightarrow> validated_goal list \<Rightarrow> nat" where
  \<comment> \<open>How many goals failed the dimension.\<close>
  "failed_count d validated_goals =
     length (filter (\<lambda>g. \<not> passes (vg_smart_assessment g) d) validated_goals)"

definition scaled_sum :: "string \<Rightarrow> double" where
  \<comment> \<open>The float that \<open>smart_score\<close> holds after the five additions
      \<open>smart_score += score * 20\<close>, in the order of the dimensions.\<close>
  "scaled_sum goal_text =
     foldl (\<lambda>smart_score d. fadd smart_score (fmul (raw_score d goal_text) 20)) 0 dimensions"

subsection \<open>Sample texts\<close>




definition text_vague :: string where
  \<comment> \<open>A goal with two of the warning keywords of the achievable criterion and no other
      keyword.\<close>
  "text_vague = ''Goal: a perfect revolutionary idea''"

section \<open>Properties of rounding\<close>

text \<open>
  Rounding keeps a value on its side of every integer, as long as the value is below
  \<open>2 ^ 53\<close>, and it leaves a half-integer below \<open>2 ^ 52\<close> unchanged.
\<close>

lemma pow2_powi: "pow2 e = 2 powi e"
proof (cases "0 \<le> e")
  case True
  then show ?thesis by (simp add: pow2_def power_int_def)
next
  case False
  then have "pow2 e = Fract 1 (2 ^ nat (- e))" by (simp add: pow2_def)
  also have "\<dots> = 1 / of_int (2 ^ nat (- e))" by (simp add: Fract_of_int_quotient)
  also have "\<dots> = 2 powi e" using False by (simp add: power_int_def field_simps)
  finally show ?thesis .
qed

lemma pow2_pos: "0 < pow2 e"
  by (simp add: pow2_powi)

lemma pow2_less_imp: "pow2 a < pow2 b \<Longrightarrow> a < b"
proof (rule ccontr)
  assume lt: "pow2 a < pow2 b" and "\<not> a < b"
  then have "b \<le> a" by simp
  then have "(2::rat) powi b \<le> 2 powi a" by (rule power_int_increasing) simp
  with lt show False by (simp add: pow2_powi)
qed

lemma ilog2_le:
  assumes "0 < x"
  shows "pow2 (ilog2 x) \<le> x"
proof -
  obtain p q where pq: "quotient_of x = (p, q)" by (cases "quotient_of x")
  then have q: "0 < q" and x: "x = of_int p / of_int q"
    by (auto dest: quotient_of_denom_pos quotient_of_div)
  from assms x q have p: "0 < p" by (simp add: zero_less_divide_iff)
  define d where "d = bitlen p - bitlen q"
  have il: "ilog2 x = (if pow2 d \<le> x then d else d - 1)"
    by (simp add: ilog2_def pq d_def Let_def)
  show ?thesis
  proof (cases "pow2 d \<le> x")
    case True
    with il show ?thesis by simp
  next
    case False
    have bp: "2 ^ nat (bitlen p - 1) \<le> p" using bitlen_bounds [OF p] by simp
    have bq: "q < 2 ^ nat (bitlen q)" using bitlen_bounds [OF q] by simp
    have bp1: "1 \<le> bitlen p" using p by (simp add: bitlen_alt_def)
    have bq0: "0 \<le> bitlen q" by (rule bitlen_nonneg)
    have "pow2 (d - 1) = 2 powi (bitlen p - 1) / 2 powi (bitlen q)"
      by (simp add: pow2_powi d_def power_int_diff)
    also have "\<dots> = of_int (2 ^ nat (bitlen p - 1)) / of_int (2 ^ nat (bitlen q))"
      using bp1 bq0 by (simp add: power_int_def)
    also have "\<dots> \<le> of_int p / of_int q"
    proof (rule frac_le)
      show "(0::rat) \<le> of_int p" using p by simp
      show "(of_int (2 ^ nat (bitlen p - 1)) :: rat) \<le> of_int p"
        using bp by (simp only: of_int_le_iff)
      show "(0::rat) < of_int q" using q by simp
      show "(of_int q :: rat) \<le> of_int (2 ^ nat (bitlen q))"
        using bq by (simp only: of_int_le_iff less_imp_le)
    qed
    finally have "pow2 (d - 1) \<le> x" by (simp add: x)
    with il False show ?thesis by simp
  qed
qed

lemma ilog2_upper:
  assumes "0 < x" and "x < pow2 b"
  shows "ilog2 x < b"
proof -
  have "pow2 (ilog2 x) < pow2 b" using ilog2_le [OF assms(1)] assms(2) by simp
  then show ?thesis by (rule pow2_less_imp)
qed

lemma round_half_even_le: "x \<le> of_int m \<Longrightarrow> round_half_even x \<le> m"
proof -
  assume a: "x \<le> of_int m"
  have f: "\<lfloor>x\<rfloor> \<le> m" using a by (simp add: floor_le_iff)
  show ?thesis
  proof (cases "x - of_int \<lfloor>x\<rfloor> < 1 / 2")
    case True
    then show ?thesis using f by (simp add: round_half_even_def Let_def)
  next
    case False
    then have "of_int \<lfloor>x\<rfloor> < x" by linarith
    with a have "(of_int \<lfloor>x\<rfloor> :: rat) < of_int m" by linarith
    then have "\<lfloor>x\<rfloor> < m" by (simp only: of_int_less_iff)
    then show ?thesis by (simp add: round_half_even_def Let_def)
  qed
qed

lemma round_half_even_nonneg: "0 \<le> x \<Longrightarrow> 0 \<le> round_half_even x"
  by (simp add: round_half_even_def Let_def)

lemma round_half_even_of_int: "round_half_even (of_int z) = z"
  by (simp add: round_half_even_def Let_def)

lemma rnd_nonneg:
  assumes "0 \<le> x"
  shows "0 \<le> rnd x"
proof (cases "x = 0")
  case True
  then show ?thesis by (simp add: rnd_def)
next
  case False
  define e where "e = ilog2 \<bar>x\<bar> - 52"
  show ?thesis
  proof (cases "e \<le> 0")
    case True
    have "0 \<le> round_half_even (x * of_int (2 ^ nat (- e)))"
      using assms by (intro round_half_even_nonneg) simp
    then have "0 \<le> Fract (round_half_even (x * of_int (2 ^ nat (- e)))) (2 ^ nat (- e))"
      by (simp add: zero_le_Fract_iff)
    then show ?thesis using False True by (simp add: rnd_def e_def Let_def)
  next
    case False2: False
    have "0 \<le> round_half_even (x / of_int (2 ^ nat e))"
      using assms by (intro round_half_even_nonneg) simp
    then have "(0::rat) \<le> of_int (round_half_even (x / of_int (2 ^ nat e)) * 2 ^ nat e)"
      by simp
    then show ?thesis using False False2 by (simp add: rnd_def e_def Let_def)
  qed
qed

lemma rnd_small:
  assumes "0 < x" and "x < 2 ^ 53"
  shows "ilog2 x \<le> 52"
    and "rnd x = of_int (round_half_even (x * of_int (2 ^ nat (52 - ilog2 x))))
                 / of_int (2 ^ nat (52 - ilog2 x))"
proof -
  have "x < pow2 53" using assms(2) by (simp add: pow2_def)
  then have "ilog2 x < 53" using assms(1) by (rule ilog2_upper [rotated])
  then show le: "ilog2 x \<le> 52" by simp
  have "\<bar>x\<bar> = x" using assms(1) by simp
  then have "rnd x = Fract (round_half_even (x * of_int (2 ^ nat (52 - ilog2 x))))
                       (2 ^ nat (52 - ilog2 x))"
    using assms(1) le unfolding rnd_def Let_def by simp
  then show "rnd x = of_int (round_half_even (x * of_int (2 ^ nat (52 - ilog2 x))))
                 / of_int (2 ^ nat (52 - ilog2 x))"
    by (simp only: Fract_of_int_quotient)
qed

lemma rnd_le_int:
  assumes "0 \<le> x" and "x \<le> of_int n" and "x < 2 ^ 53"
  shows "rnd x \<le> of_int n"
proof (cases "x = 0")
  case True
  with assms show ?thesis by (simp add: rnd_def)
next
  case False
  with assms have pos: "0 < x" by simp
  define k where "k = nat (52 - ilog2 x)"
  have "x * of_int (2 ^ k) \<le> of_int (n * 2 ^ k)"
    using assms(2) by (simp add: mult_right_mono)
  then have "round_half_even (x * of_int (2 ^ k)) \<le> n * 2 ^ k"
    by (rule round_half_even_le)
  then have "(of_int (round_half_even (x * of_int (2 ^ k))) :: rat) \<le> of_int (n * 2 ^ k)"
    by (simp only: of_int_le_iff)
  then have "of_int (round_half_even (x * of_int (2 ^ k))) / of_int (2 ^ k) \<le> (of_int n :: rat)"
    by (simp add: divide_le_eq)
  then show ?thesis
    unfolding rnd_small(2) [OF pos assms(3)] k_def .
qed

lemma rnd_exact_half:
  assumes "0 \<le> n" and "n < 2 ^ 53"
  shows "rnd (of_int n / 2) = of_int n / 2"
proof (cases "n = 0")
  case True
  then show ?thesis by (simp add: rnd_def)
next
  case False
  define x :: rat where "x = of_int n / 2"
  from False assms have pos: "0 < x" by (simp add: x_def)
  have lt52: "x < 2 ^ 52"
  proof -
    have "(of_int n :: rat) < of_int (2 ^ 53)" using assms(2) by (simp only: of_int_less_iff)
    then show ?thesis by (simp add: x_def)
  qed
  then have lt53: "x < 2 ^ 53" by simp
  have "x < pow2 52" using lt52 by (simp add: pow2_def)
  then have il: "ilog2 x < 52" using pos by (rule ilog2_upper [rotated])
  define k where "k = nat (51 - ilog2 x)"
  have k: "nat (52 - ilog2 x) = Suc k" using il by (simp add: k_def)
  have "x * of_int (2 ^ Suc k) = of_int (n * 2 ^ k)" by (simp add: x_def)
  then have "round_half_even (x * of_int (2 ^ Suc k)) = n * 2 ^ k"
    by (simp only: round_half_even_of_int)
  then have "rnd x = of_int (n * 2 ^ k) / of_int (2 ^ Suc k)"
    unfolding rnd_small(2) [OF pos lt53] k by simp
  also have "\<dots> = x" by (simp add: x_def)
  finally show ?thesis by (simp add: x_def)
qed

section \<open>Properties of the epic generator\<close>

subsection \<open>Substring search\<close>

lemma startswith_iff: "startswith s p \<longleftrightarrow> (\<exists>post. s = p @ post)"
  by (induction s p rule: startswith.induct) auto

lemma contains_iff: "contains sub s \<longleftrightarrow> (\<exists>pre post. s = pre @ sub @ post)"
proof (induction s)
  case Nil
  then show ?case by auto
next
  case (Cons c cs)
  show ?case
  proof
    assume "contains sub (c # cs)"
    then consider "startswith (c # cs) sub" | "contains sub cs" by auto
    then show "\<exists>pre post. c # cs = pre @ sub @ post"
    proof cases
      case 1
      then obtain post where "c # cs = sub @ post" by (auto simp: startswith_iff)
      then have "c # cs = [] @ sub @ post" by simp
      then show ?thesis by blast
    next
      case 2
      then obtain pre post where "cs = pre @ sub @ post" using Cons.IH by auto
      then have "c # cs = (c # pre) @ sub @ post" by simp
      then show ?thesis by blast
    qed
  next
    assume "\<exists>pre post. c # cs = pre @ sub @ post"
    then obtain pre post where eq: "c # cs = pre @ sub @ post" by blast
    show "contains sub (c # cs)"
    proof (cases pre)
      case Nil
      with eq have "startswith (c # cs) sub" by (auto simp: startswith_iff)
      then show ?thesis by simp
    next
      case (Cons a pre')
      with eq have "cs = pre' @ sub @ post" by simp
      then have "contains sub cs" using Cons.IH by blast
      then show ?thesis by simp
    qed
  qed
qed


lemma any_keyword_in_iff:
  "any_keyword_in kws (lower title) \<longleftrightarrow> has_keyword kws title"
  by (induction kws) (auto simp: has_keyword_def contains_iff)

lemma has_keyword_as_declared_iff:
  "has_keyword_as_declared kws title \<longleftrightarrow> list_ex (\<lambda>k. contains k (lower title)) kws"
  by (auto simp: has_keyword_as_declared_def contains_iff list_ex_iff)

lemma suggest_team_loop_first:
  "i < length tc \<Longrightarrow> has_keyword (snd (tc ! i)) title \<Longrightarrow>
   (\<forall>j < i. \<not> has_keyword (snd (tc ! j)) title) \<Longrightarrow>
   suggest_team_loop tc (lower title) = fst (tc ! i)"
proof (induction tc arbitrary: i)
  case Nil
  then show ?case by simp
next
  case (Cons p tc)
  obtain team kws where p: "p = (team, kws)" by (cases p)
  show ?case
  proof (cases i)
    case 0
    with Cons.prems p show ?thesis by (simp add: any_keyword_in_iff)
  next
    case (Suc i')
    from Cons.prems(3) Suc have "\<not> has_keyword kws title"
      using p by (metis nth_Cons_0 snd_conv zero_less_Suc)
    moreover have "suggest_team_loop tc (lower title) = fst (tc ! i')"
    proof (rule Cons.IH)
      show "i' < length tc" using Cons.prems(1) Suc by simp
      show "has_keyword (snd (tc ! i')) title" using Cons.prems(2) Suc by simp
      show "\<forall>j<i'. \<not> has_keyword (snd (tc ! j)) title"
        using Cons.prems(3) Suc by (metis Suc_less_eq nth_Cons_Suc)
    qed
    ultimately show ?thesis using p Suc by (simp add: any_keyword_in_iff)
  qed
qed

lemma suggest_team_loop_none:
  "(\<forall>j < length tc. \<not> has_keyword (snd (tc ! j)) title) \<Longrightarrow>
   suggest_team_loop tc (lower title) = ''Backend''"
proof (induction tc)
  case Nil
  then show ?case by simp
next
  case (Cons p tc)
  obtain team kws where p: "p = (team, kws)" by (cases p)
  from Cons.prems have "\<not> has_keyword kws title"
    using p by (metis length_Cons nth_Cons_0 snd_conv zero_less_Suc)
  moreover have "suggest_team_loop tc (lower title) = ''Backend''"
  proof (rule Cons.IH, intro allI impI)
    fix j assume "j < length tc"
    then have "Suc j < length (p # tc)" by simp
    then have "\<not> has_keyword (snd ((p # tc) ! Suc j)) title" using Cons.prems by blast
    then show "\<not> has_keyword (snd (tc ! j)) title" by simp
  qed
  ultimately show ?case using p by (simp add: any_keyword_in_iff)
qed

subsection \<open>The main loop\<close>

lemma epics_loop_eq:
  "epics_loop gs es fs =
     (es @ map process_goal gs, fs @ concat (map (\<lambda>g. e_features (process_goal g)) gs))"
  by (induction gs arbitrary: es fs) (simp_all add: Let_def)

lemma r_epics_eq: "r_epics (generate_epics_and_features goals) = map process_goal goals"
  by (simp add: generate_epics_and_features_def epics_loop_eq Let_def)

lemma r_features_eq:
  "r_features (generate_epics_and_features goals) =
     concat (map (\<lambda>g. e_features (process_goal g)) goals)"
  by (simp add: generate_epics_and_features_def epics_loop_eq Let_def)

lemma e_features_process_goal:
  "e_features (process_goal g) =
     map (make_feature (generate_epic_from_goal g))
       (get_feature_templates (goal_text_of g) (e_category (generate_epic_from_goal g)))"
  by (simp add: process_goal_def generate_features_for_epic_def Let_def get_feature_templates_def)

lemma titles_process_goal:
  "map f_title (e_features (process_goal g)) =
     [''Requirements Analysis and Design'', ''Core Implementation'',
      ''User Interface Development'', ''Integration and Testing'',
      ''Documentation and Deployment'']"
  by (simp add: e_features_process_goal get_feature_templates_def make_feature_def)

lemma sizes_process_goal:
  "map f_effort_size (e_features (process_goal g)) = [M, L, M, M, S]"
  by (simp add: e_features_process_goal get_feature_templates_def make_feature_def)

lemma points_process_goal:
  "map f_effort_points (e_features (process_goal g)) = [3, 5, 3, 3, 2]"
  by (simp add: e_features_process_goal get_feature_templates_def make_feature_def)

lemma total_effort_process_goal:
  "e_total_effort (process_goal g) = sum_list (map f_effort_points (e_features (process_goal g)))"
  by (simp add: process_goal_def Let_def)

lemma feature_count_process_goal:
  "e_feature_count (process_goal g) = int (length (e_features (process_goal g)))"
  by (simp add: process_goal_def Let_def)

lemma make_feature_points:
  "f_effort_points (make_feature ep t) = effort_guidelines_points (f_effort_size (make_feature ep t))"
  by (simp add: make_feature_def)

subsection \<open>Team assignment of the templates\<close>

lemma keys_update:
  "map fst (map (\<lambda>(k, titles). if k = team then (k, titles @ [x]) else (k, titles)) d) = map fst d"
  by (induction d) auto

lemma keys_assign_teams_loop:
  "map fst (assign_teams_loop fs d) = foldl add_key (map fst d) (map f_assigned_team fs)"
proof (induction fs arbitrary: d)
  case Nil
  then show ?case by simp
next
  case (Cons f fs)
  define d' where "d' = (if f_assigned_team f \<notin> set (map fst d)
                         then d @ [(f_assigned_team f, [])] else d)"
  define upd :: "string \<times> string list \<Rightarrow> string \<times> string list"
    where "upd = (\<lambda>(k, titles). if k = f_assigned_team f then (k, titles @ [f_title f])
                                  else (k, titles))"
  have step: "assign_teams_loop (f # fs) d = assign_teams_loop fs (map upd d')"
    by (simp add: Let_def d'_def upd_def)
  have "map fst (map upd d') = map fst d'"
    unfolding upd_def by (rule keys_update)
  also have "\<dots> = add_key (map fst d) (f_assigned_team f)"
    by (simp add: d'_def add_key_def)
  finally have keys: "map fst (map upd d') = add_key (map fst d) (f_assigned_team f)" .
  have "map fst (assign_teams_loop (f # fs) d)
        = foldl add_key (map fst (map upd d')) (map f_assigned_team fs)"
    unfolding step by (rule Cons.IH)
  also have "\<dots> = foldl add_key (map fst d) (map f_assigned_team (f # fs))"
    unfolding keys by simp
  finally show ?case .
qed

lemma team_requirements:
  "suggest_team_assignment ''Requirements Analysis and Design'' = ''Frontend''"
  by code_simp

lemma team_core: "suggest_team_assignment ''Core Implementation'' = ''Backend''"
  by code_simp

lemma team_interface: "suggest_team_assignment ''User Interface Development'' = ''Frontend''"
  by code_simp

lemma team_integration: "suggest_team_assignment ''Integration and Testing'' = ''Backend''"
  by code_simp

lemma team_deployment: "suggest_team_assignment ''Documentation and Deployment'' = ''DevOps''"
  by code_simp

lemma teams_process_goal:
  "map f_assigned_team (e_features (process_goal g)) =
     [''Frontend'', ''Backend'', ''Frontend'', ''Backend'', ''DevOps'']"
  by (simp add: e_features_process_goal get_feature_templates_def make_feature_def
      team_requirements team_core team_interface team_integration team_deployment)

lemma keys_stable:
  "foldl add_key [''Frontend'', ''Backend'', ''DevOps'']
     (concat (map (\<lambda>g. map f_assigned_team (e_features (process_goal g))) gs))
   = [''Frontend'', ''Backend'', ''DevOps'']"
  by (induction gs) (simp_all add: teams_process_goal add_key_def)

lemma keys_generate:
  assumes "goals \<noteq> []"
  shows "map fst (r_team_assignments (generate_epics_and_features goals))
           = [''Frontend'', ''Backend'', ''DevOps'']"
proof -
  from assms obtain g gs where goals: "goals = g # gs" by (cases goals) auto
  have "map fst (r_team_assignments (generate_epics_and_features goals))
        = foldl add_key [] (map f_assigned_team (concat (map (\<lambda>g. e_features (process_goal g)) goals)))"
    by (simp add: generate_epics_and_features_def epics_loop_eq Let_def
        assign_teams_to_features_def keys_assign_teams_loop)
  also have "\<dots> = foldl add_key (foldl add_key [] (map f_assigned_team (e_features (process_goal g))))
                     (concat (map (\<lambda>g. map f_assigned_team (e_features (process_goal g))) gs))"
    by (simp add: goals map_concat comp_def)
  also have "foldl add_key [] (map f_assigned_team (e_features (process_goal g)))
             = [''Frontend'', ''Backend'', ''DevOps'']"
    by (simp add: teams_process_goal add_key_def)
  finally show ?thesis by (simp add: keys_stable)
qed

subsection \<open>C4: team assignment is first-match-wins\<close>

text \<open>
  Claim C4, as amended. Team assignment is deterministic and first-match-wins over the
  declaration order Frontend, Backend, DevOps, QA, Data, Security: the first team one of
  whose keywords, lower-cased, occurs as a substring of the lower-cased feature title is
  assigned. A title with a Frontend keyword and a Backend keyword (in this sense) is
  assigned to Frontend, and a title with no keyword of any team is assigned to Backend.
\<close>

theorem suggest_team_first_match:
  "map fst team_categories = [''Frontend'', ''Backend'', ''DevOps'', ''QA'', ''Data'', ''Security'']
   \<and> (\<forall>i < length team_categories.
        has_keyword (snd (team_categories ! i)) title
        \<and> (\<forall>j < i. \<not> has_keyword (snd (team_categories ! j)) title)
        \<longrightarrow> suggest_team_assignment title = fst (team_categories ! i))
   \<and> (has_keyword (snd (team_categories ! 0)) title \<and> has_keyword (snd (team_categories ! 1)) title
        \<longrightarrow> suggest_team_assignment title = ''Frontend'')
   \<and> ((\<forall>i < length team_categories. \<not> has_keyword (snd (team_categories ! i)) title)
        \<longrightarrow> suggest_team_assignment title = ''Backend'')"
proof (intro conjI allI impI)
  show "map fst team_categories = [''Frontend'', ''Backend'', ''DevOps'', ''QA'', ''Data'', ''Security'']"
    by (simp add: team_categories_def)
next
  fix i
  assume "i < length team_categories"
    and "has_keyword (snd (team_categories ! i)) title
         \<and> (\<forall>j < i. \<not> has_keyword (snd (team_categories ! j)) title)"
  then show "suggest_team_assignment title = fst (team_categories ! i)"
    unfolding suggest_team_assignment_def by (intro suggest_team_loop_first) auto
next
  assume "has_keyword (snd (team_categories ! 0)) title \<and> has_keyword (snd (team_categories ! 1)) title"
  then have "has_keyword (snd (team_categories ! 0)) title" by simp
  then have "suggest_team_loop team_categories (lower title) = fst (team_categories ! 0)"
    by (intro suggest_team_loop_first) (auto simp: team_categories_def)
  then show "suggest_team_assignment title = ''Frontend''"
    by (simp add: suggest_team_assignment_def team_categories_def)
next
  assume "\<forall>i < length team_categories. \<not> has_keyword (snd (team_categories ! i)) title"
  then show "suggest_team_assignment title = ''Backend''"
    unfolding suggest_team_assignment_def by (rule suggest_team_loop_none)
qed

text \<open>
  The three cases at concrete titles: a title with a Frontend and a Backend keyword, a
  title whose first matching team is the third one, and a title that matches nothing.
\<close>

theorem suggest_team_first_match_witness:
  "has_keyword (snd (team_categories ! 0)) ''Web API gateway''
   \<and> has_keyword (snd (team_categories ! 1)) ''Web API gateway''
   \<and> suggest_team_assignment ''Web API gateway'' = ''Frontend''
   \<and> \<not> has_keyword (snd (team_categories ! 0)) ''Monitoring alerts''
   \<and> \<not> has_keyword (snd (team_categories ! 1)) ''Monitoring alerts''
   \<and> has_keyword (snd (team_categories ! 2)) ''Monitoring alerts''
   \<and> suggest_team_assignment ''Monitoring alerts'' = ''DevOps''
   \<and> \<not> has_keyword (concat (map snd team_categories)) ''Core Implementation''
   \<and> suggest_team_assignment ''Core Implementation'' = ''Backend''"
proof -
  have f: "has_keyword (snd (team_categories ! 0)) ''Web API gateway''"
    unfolding any_keyword_in_iff [symmetric] by code_simp
  have b: "has_keyword (snd (team_categories ! 1)) ''Web API gateway''"
    unfolding any_keyword_in_iff [symmetric] by code_simp
  have len: "2 < length team_categories" by (simp add: team_categories_def)
  have d: "has_keyword (snd (team_categories ! 2)) ''Monitoring alerts''"
    unfolding any_keyword_in_iff [symmetric] by code_simp
  have nd: "\<forall>j < 2. \<not> has_keyword (snd (team_categories ! j)) ''Monitoring alerts''"
  proof (intro allI impI)
    fix j :: nat assume "j < 2"
    then consider "j = 0" | "j = 1" by linarith
    then show "\<not> has_keyword (snd (team_categories ! j)) ''Monitoring alerts''"
    proof cases
      case 1
      show ?thesis unfolding 1 any_keyword_in_iff [symmetric] by code_simp
    next
      case 2
      show ?thesis unfolding 2 any_keyword_in_iff [symmetric] by code_simp
    qed
  qed
  have none: "\<forall>i < length team_categories. \<not> has_keyword (snd (team_categories ! i)) ''Core Implementation''"
  proof (intro allI impI)
    fix i assume "i < length team_categories"
    then have "i < 6" by (simp add: team_categories_def)
    then consider "i = 0" | "i = 1" | "i = 2" | "i = 3" | "i = 4" | "i = 5" by linarith
    then show "\<not> has_keyword (snd (team_categories ! i)) ''Core Implementation''"
    proof cases
      case 1 show ?thesis unfolding 1 any_keyword_in_iff [symmetric] by code_simp
    next
      case 2 show ?thesis unfolding 2 any_keyword_in_iff [symmetric] by code_simp
    next
      case 3 show ?thesis unfolding 3 any_keyword_in_iff [symmetric] by code_simp
    next
      case 4 show ?thesis unfolding 4 any_keyword_in_iff [symmetric] by code_simp
    next
      case 5 show ?thesis unfolding 5 any_keyword_in_iff [symmetric] by code_simp
    next
      case 6 show ?thesis unfolding 6 any_keyword_in_iff [symmetric] by code_simp
    qed
  qed
  have k2: "fst (team_categories ! 2) = ''DevOps''" by (simp add: team_categories_def)
  note thm1 = suggest_team_first_match [of "''Web API gateway''"]
  note thm2 = suggest_team_first_match [of "''Monitoring alerts''"]
  note thm3 = suggest_team_first_match [of "''Core Implementation''"]
  from thm1 f b have r1: "suggest_team_assignment ''Web API gateway'' = ''Frontend''" by blast
  from thm2 len d nd have r2: "suggest_team_assignment ''Monitoring alerts'' = fst (team_categories ! 2)"
    by blast
  from thm3 none have r3: "suggest_team_assignment ''Core Implementation'' = ''Backend''" by blast
  have all: "\<not> has_keyword (concat (map snd team_categories)) ''Core Implementation''"
    unfolding any_keyword_in_iff [symmetric] by code_simp
  from nd have nd0: "\<not> has_keyword (snd (team_categories ! 0)) ''Monitoring alerts''"
    and nd1: "\<not> has_keyword (snd (team_categories ! 1)) ''Monitoring alerts''" by simp_all
  from f b r1 nd0 nd1 d r2 k2 all r3 show ?thesis by simp
qed

text \<open>
  The claim as stated tests the keywords as they are declared against the lower-cased
  title. Seven keywords are declared with capitals (UI, UX, React, Angular, Vue, API,
  CI/CD) and could then never match. In the title \<open>UI polish\<close> no keyword of any team
  occurs as declared, so the claim as stated assigns Backend; the code lower-cases the
  keyword \<open>UI\<close> as well and assigns Frontend.
\<close>

theorem suggest_team_as_declared_counterexample:
  "\<not> has_keyword_as_declared (concat (map snd team_categories)) ''UI polish''
   \<and> has_keyword (snd (team_categories ! 0)) ''UI polish''
   \<and> suggest_team_assignment ''UI polish'' = ''Frontend''
   \<and> suggest_team_assignment ''UI polish'' \<noteq> ''Backend''"
proof -
  have a: "\<not> has_keyword_as_declared (concat (map snd team_categories)) ''UI polish''"
    unfolding has_keyword_as_declared_iff by code_simp
  have b: "has_keyword (snd (team_categories ! 0)) ''UI polish''"
    unfolding any_keyword_in_iff [symmetric] by code_simp
  have c: "suggest_team_assignment ''UI polish'' = ''Frontend''"
    by code_simp
  from a b c show ?thesis by simp
qed

subsection \<open>C5: five fixed features per Epic\<close>

text \<open>
  Claim C5, as amended. Whatever the goals, every Epic gets exactly five features, with the
  titles Requirements Analysis and Design, Core Implementation, User Interface
  Development, Integration and Testing, Documentation and Deployment in this order and
  the effort sizes M, L, M, M, S; so every Epic has total effort 3 + 5 + 3 + 3 + 2 = 16,
  and a single goal gives estimated weeks = max(1, 16 // 20) = 1.
\<close>

theorem five_fixed_features:
  "(\<forall>ep \<in> set (r_epics (generate_epics_and_features goals)).
      length (e_features ep) = 5
      \<and> map f_title (e_features ep) =
          [''Requirements Analysis and Design'', ''Core Implementation'',
           ''User Interface Development'', ''Integration and Testing'',
           ''Documentation and Deployment'']
      \<and> map f_effort_size (e_features ep) = [M, L, M, M, S]
      \<and> e_total_effort ep = 3 + 5 + 3 + 3 + 2
      \<and> e_total_effort ep = 16)
   \<and> length (r_epics (generate_epics_and_features goals)) = length goals
   \<and> estimated_weeks (r_summary (generate_epics_and_features [g])) = max 1 (16 div 20)
   \<and> estimated_weeks (r_summary (generate_epics_and_features [g])) = 1"
proof (intro conjI ballI)
  fix ep assume "ep \<in> set (r_epics (generate_epics_and_features goals))"
  then obtain g' where ep: "ep = process_goal g'" by (auto simp: r_epics_eq)
  have "length (map f_title (e_features ep)) = 5" unfolding ep titles_process_goal by simp
  then show "length (e_features ep) = 5" by simp
  show "map f_title (e_features ep) =
          [''Requirements Analysis and Design'', ''Core Implementation'',
           ''User Interface Development'', ''Integration and Testing'',
           ''Documentation and Deployment'']"
    unfolding ep by (rule titles_process_goal)
  show "map f_effort_size (e_features ep) = [M, L, M, M, S]"
    unfolding ep by (rule sizes_process_goal)
  show "e_total_effort ep = 3 + 5 + 3 + 3 + 2" "e_total_effort ep = 16"
    unfolding ep by (simp_all add: total_effort_process_goal points_process_goal)
next
  show "length (r_epics (generate_epics_and_features goals)) = length goals"
    by (simp add: r_epics_eq)
  have "total_effort_points (r_summary (generate_epics_and_features [g])) = 16"
    by (simp add: generate_epics_and_features_def epics_loop_eq Let_def
        total_effort_process_goal points_process_goal)
  have "estimated_weeks (r_summary (generate_epics_and_features [g])) = 1"
    by (simp add: generate_epics_and_features_def epics_loop_eq Let_def
        total_effort_process_goal points_process_goal)
  then show "estimated_weeks (r_summary (generate_epics_and_features [g])) = max 1 (16 div 20)"
    "estimated_weeks (r_summary (generate_epics_and_features [g])) = 1"
    by simp_all
qed

text \<open>The sample goal of the specification's scenario.\<close>

theorem five_fixed_features_witness:
  "process_goal demo_goal \<in> set (r_epics (generate_epics_and_features [demo_goal]))
   \<and> length (e_features (process_goal demo_goal)) = 5
   \<and> e_total_effort (process_goal demo_goal) = 16
   \<and> estimated_weeks (r_summary (generate_epics_and_features [demo_goal])) = 1"
proof -
  have mem: "process_goal demo_goal \<in> set (r_epics (generate_epics_and_features [demo_goal]))"
    by (simp add: generate_epics_and_features_def Let_def)
  from five_fixed_features [of "[demo_goal]" demo_goal] mem show ?thesis by blast
qed

text \<open>
  The claim as stated names the first template \<open>Requirements Analysis & Design\<close>; the
  title string of the code is \<open>Requirements Analysis and Design\<close>.
\<close>

theorem five_fixed_features_counterexample:
  "map f_title (e_features (process_goal demo_goal))
     \<noteq> [''Requirements Analysis & Design'', ''Core Implementation'',
         ''User Interface Development'', ''Integration and Testing'',
         ''Documentation and Deployment'']
   \<and> f_title (hd (e_features (process_goal demo_goal))) = ''Requirements Analysis and Design''"
proof -
  have "hd (map f_title (e_features (process_goal demo_goal))) = ''Requirements Analysis and Design''"
    by (simp only: titles_process_goal list.sel)
  moreover have "e_features (process_goal demo_goal) \<noteq> []"
    using titles_process_goal [of demo_goal] by auto
  ultimately have "f_title (hd (e_features (process_goal demo_goal))) = ''Requirements Analysis and Design''"
    by (simp add: hd_map)
  then show ?thesis by (simp add: titles_process_goal)
qed

subsection \<open>C7: rollups and effort points\<close>

text \<open>
  Claim C7. For every Epic of the result, the total effort is the sum of the effort points
  of its features and the feature count is the length of its feature list; every
  feature's effort points are the table value of its effort size, the table being
  XS = 1, S = 2, M = 3, L = 5, XL = 8, XXL = 13.
\<close>

theorem epic_rollups:
  "(\<forall>ep \<in> set (r_epics (generate_epics_and_features goals)).
      e_total_effort ep = sum_list (map f_effort_points (e_features ep))
      \<and> e_feature_count ep = int (length (e_features ep))
      \<and> (\<forall>f \<in> set (e_features ep). f_effort_points f = effort_guidelines_points (f_effort_size f)))
   \<and> (\<forall>f \<in> set (r_features (generate_epics_and_features goals)).
        f_effort_points f = effort_guidelines_points (f_effort_size f))
   \<and> map effort_guidelines_points [XS, S, M, L, XL, XXL] = [1, 2, 3, 5, 8, 13]"
proof (intro conjI ballI)
  fix ep assume "ep \<in> set (r_epics (generate_epics_and_features goals))"
  then obtain g' where ep: "ep = process_goal g'" by (auto simp: r_epics_eq)
  show "e_total_effort ep = sum_list (map f_effort_points (e_features ep))"
    unfolding ep by (rule total_effort_process_goal)
  show "e_feature_count ep = int (length (e_features ep))"
    unfolding ep by (rule feature_count_process_goal)
  fix f assume "f \<in> set (e_features ep)"
  then show "f_effort_points f = effort_guidelines_points (f_effort_size f)"
    unfolding ep e_features_process_goal by (auto simp: make_feature_points)
next
  fix f assume "f \<in> set (r_features (generate_epics_and_features goals))"
  then show "f_effort_points f = effort_guidelines_points (f_effort_size f)"
    unfolding r_features_eq e_features_process_goal by (auto simp: make_feature_points)
next
  show "map effort_guidelines_points [XS, S, M, L, XL, XXL] = [1, 2, 3, 5, 8, 13]" by simp
qed

text \<open>The rollups of the sample goal's Epic and the points of its first feature.\<close>

theorem epic_rollups_witness:
  "process_goal demo_goal \<in> set (r_epics (generate_epics_and_features [demo_goal]))
   \<and> e_total_effort (process_goal demo_goal)
       = sum_list (map f_effort_points (e_features (process_goal demo_goal)))
   \<and> e_feature_count (process_goal demo_goal) = 5
   \<and> hd (e_features (process_goal demo_goal)) \<in> set (e_features (process_goal demo_goal))
   \<and> f_effort_size (hd (e_features (process_goal demo_goal))) = M
   \<and> f_effort_points (hd (e_features (process_goal demo_goal))) = 3"
proof -
  have mem: "process_goal demo_goal \<in> set (r_epics (generate_epics_and_features [demo_goal]))"
    by (simp add: generate_epics_and_features_def Let_def)
  have len: "length (e_features (process_goal demo_goal)) = 5"
    by (simp add: e_features_process_goal get_feature_templates_def)
  have hdmem: "hd (e_features (process_goal demo_goal)) \<in> set (e_features (process_goal demo_goal))"
    by (simp add: e_features_process_goal get_feature_templates_def)
  have sz: "f_effort_size (hd (e_features (process_goal demo_goal))) = M"
    by (simp add: e_features_process_goal get_feature_templates_def make_feature_def)
  from epic_rollups [of "[demo_goal]"] mem hdmem
  have "e_total_effort (process_goal demo_goal)
       = sum_list (map f_effort_points (e_features (process_goal demo_goal)))"
    and "e_feature_count (process_goal demo_goal) = int (length (e_features (process_goal demo_goal)))"
    and "f_effort_points (hd (e_features (process_goal demo_goal)))
           = effort_guidelines_points (f_effort_size (hd (e_features (process_goal demo_goal))))"
    by blast+
  with mem hdmem sz len show ?thesis by simp
qed

subsection \<open>C8: the empty goal list\<close>

text \<open>
  Claim C8. On the empty goal list the generator returns a result (the model is total: no
  branch raises) with no Epic, no feature, no effort points, one estimated week, an empty
  team-assignment dict and zero teams involved.
\<close>

theorem empty_goal_list:
  "generate_epics_and_features [] =
     \<lparr> r_epics = [], r_features = [], r_team_assignments = [],
       r_summary = \<lparr> total_epics = 0, total_features = 0, total_effort_points = 0,
                     estimated_weeks = 1, teams_involved = 0 \<rparr> \<rparr>"
  by (simp add: generate_epics_and_features_def assign_teams_to_features_def)

subsection \<open>C10: the teams of the five templates\<close>

text \<open>
  Claim C10, as amended. The five features of every Epic are assigned to Frontend, Backend,
  Frontend, Backend, DevOps in this order: the first title, \<open>Requirements Analysis and
  Design\<close>, contains the Frontend keyword \<open>ui\<close> (inside "requirements"), so it does not
  fall through to the default. For every non-empty goal list the team-assignment dict has
  exactly the keys Frontend, Backend, DevOps and three teams are involved.
\<close>

theorem template_teams:
  "map f_assigned_team (e_features (process_goal g))
     = [''Frontend'', ''Backend'', ''Frontend'', ''Backend'', ''DevOps'']
   \<and> (goals \<noteq> [] \<longrightarrow>
        map fst (r_team_assignments (generate_epics_and_features goals))
          = [''Frontend'', ''Backend'', ''DevOps'']
        \<and> set (map fst (r_team_assignments (generate_epics_and_features goals)))
          = {''Backend'', ''Frontend'', ''DevOps''}
        \<and> teams_involved (r_summary (generate_epics_and_features goals)) = 3)"
proof (intro conjI impI)
  show "map f_assigned_team (e_features (process_goal g))
     = [''Frontend'', ''Backend'', ''Frontend'', ''Backend'', ''DevOps'']"
    by (rule teams_process_goal)
next
  assume ne: "goals \<noteq> []"
  show keys: "map fst (r_team_assignments (generate_epics_and_features goals))
          = [''Frontend'', ''Backend'', ''DevOps'']"
    using ne by (rule keys_generate)
  show "set (map fst (r_team_assignments (generate_epics_and_features goals)))
          = {''Backend'', ''Frontend'', ''DevOps''}"
    unfolding keys by auto
  have "teams_involved (r_summary (generate_epics_and_features goals))
        = int (length (map fst (r_team_assignments (generate_epics_and_features goals))))"
    by (simp add: generate_epics_and_features_def Let_def split: prod.splits)
  then show "teams_involved (r_summary (generate_epics_and_features goals)) = 3"
    unfolding keys by simp
qed

text \<open>The amended claim on the one-goal list of the sample goal.\<close>

theorem template_teams_witness:
  "[demo_goal] \<noteq> []
   \<and> map fst (r_team_assignments (generate_epics_and_features [demo_goal]))
       = [''Frontend'', ''Backend'', ''DevOps'']
   \<and> teams_involved (r_summary (generate_epics_and_features [demo_goal])) = 3"
  using template_teams [of demo_goal "[demo_goal]"] by simp

text \<open>
  The claim as stated gives Backend, Backend, Frontend, Backend, DevOps; the first entry is
  wrong for the sample goal (and for every goal).
\<close>

theorem template_teams_counterexample:
  "map f_assigned_team (e_features (process_goal demo_goal))
     \<noteq> [''Backend'', ''Backend'', ''Frontend'', ''Backend'', ''DevOps'']
   \<and> suggest_team_assignment ''Requirements Analysis and Design'' = ''Frontend''
   \<and> contains (lower ''UI'') (lower ''Requirements Analysis and Design'')"
proof (intro conjI)
  show "map f_assigned_team (e_features (process_goal demo_goal))
     \<noteq> [''Backend'', ''Backend'', ''Frontend'', ''Backend'', ''DevOps'']"
    by (simp add: teams_process_goal)
  show "suggest_team_assignment ''Requirements Analysis and Design'' = ''Frontend''"
    by (rule team_requirements)
  show "contains (lower ''UI'') (lower ''Requirements Analysis and Design'')"
    by code_simp
qed

section \<open>Properties of the goal validator\<close>

subsection \<open>Segmentation\<close>



lemma length_extract_goals: "length (extract_goals text) \<le> 10"
  by (simp add: extract_goals_def)

subsection \<open>Scores\<close>

lemma clamp01_bounds: "0 \<le> clamp01 s \<and> clamp01 s \<le> 1"
  by (simp add: clamp01_def)

lemma raw_score_bounds: "0 \<le> raw_score d t \<and> raw_score d t \<le> 1"
  by (cases d)
    (simp_all add: check_specific_def check_measurable_def check_achievable_def
      check_relevant_def check_time_bound_def Let_def clamp01_bounds)

lemma scaled_bounds:
  assumes "0 \<le> s" and "s \<le> 1"
  shows "0 \<le> fmul s 20 \<and> fmul s 20 \<le> 20"
proof
  show "0 \<le> fmul s 20" unfolding fmul_def using assms by (intro rnd_nonneg) simp
  have "rnd (s * 20) \<le> of_int 20"
    using assms by (intro rnd_le_int) simp_all
  then show "fmul s 20 \<le> 20" by (simp add: fmul_def)
qed

lemma fadd_bounds:
  assumes "0 \<le> a" and "a \<le> of_int m" and "0 \<le> b" and "b \<le> 20" and "m \<le> 1000"
  shows "0 \<le> fadd a b \<and> fadd a b \<le> of_int (m + 20)"
proof
  show "0 \<le> fadd a b" unfolding fadd_def using assms by (intro rnd_nonneg) simp
  have "(of_int m :: rat) \<le> of_int 1000" using assms(5) by (simp only: of_int_le_iff)
  then have "a + b < 2 ^ 53" using assms by simp
  moreover have "a + b \<le> of_int (m + 20)" using assms by simp
  ultimately show "fadd a b \<le> of_int (m + 20)"
    unfolding fadd_def using assms by (intro rnd_le_int) simp_all
qed

lemma scaled_sum_unfold:
  "scaled_sum t =
     fadd (fadd (fadd (fadd (fadd 0 (fmul (check_specific t) 20)) (fmul (check_measurable t) 20))
       (fmul (check_achievable t) 20)) (fmul (check_relevant t) 20)) (fmul (check_time_bound t) 20)"
  by (simp add: scaled_sum_def dimensions_def)

lemma scaled_sum_bounds: "0 \<le> scaled_sum t \<and> scaled_sum t \<le> 100"
proof -
  note s = scaled_bounds [OF raw_score_bounds [THEN conjunct1] raw_score_bounds [THEN conjunct2]]
  have s1: "0 \<le> fmul (check_specific t) 20 \<and> fmul (check_specific t) 20 \<le> 20"
    using s [of Specific t] by simp
  have s2: "0 \<le> fmul (check_measurable t) 20 \<and> fmul (check_measurable t) 20 \<le> 20"
    using s [of Measurable t] by simp
  have s3: "0 \<le> fmul (check_achievable t) 20 \<and> fmul (check_achievable t) 20 \<le> 20"
    using s [of Achievable t] by simp
  have s4: "0 \<le> fmul (check_relevant t) 20 \<and> fmul (check_relevant t) 20 \<le> 20"
    using s [of Relevant t] by simp
  have s5: "0 \<le> fmul (check_time_bound t) 20 \<and> fmul (check_time_bound t) 20 \<le> 20"
    using s [of Time_Bound t] by simp
  define x1 where "x1 = fadd 0 (fmul (check_specific t) 20)"
  define x2 where "x2 = fadd x1 (fmul (check_measurable t) 20)"
  define x3 where "x3 = fadd x2 (fmul (check_achievable t) 20)"
  define x4 where "x4 = fadd x3 (fmul (check_relevant t) 20)"
  define x5 where "x5 = fadd x4 (fmul (check_time_bound t) 20)"
  have b1: "0 \<le> x1 \<and> x1 \<le> of_int 20"
    unfolding x1_def using fadd_bounds [of 0 0 "fmul (check_specific t) 20"] s1 by simp
  have b2: "0 \<le> x2 \<and> x2 \<le> of_int 40"
    unfolding x2_def using fadd_bounds [of x1 20 "fmul (check_measurable t) 20"] s2 b1 by simp
  have b3: "0 \<le> x3 \<and> x3 \<le> of_int 60"
    unfolding x3_def using fadd_bounds [of x2 40 "fmul (check_achievable t) 20"] s3 b2 by simp
  have b4: "0 \<le> x4 \<and> x4 \<le> of_int 80"
    unfolding x4_def using fadd_bounds [of x3 60 "fmul (check_relevant t) 20"] s4 b3 by simp
  have b5: "0 \<le> x5 \<and> x5 \<le> of_int 100"
    unfolding x5_def using fadd_bounds [of x4 80 "fmul (check_time_bound t) 20"] s5 b4 by simp
  have "scaled_sum t = x5"
    by (simp add: scaled_sum_unfold x1_def x2_def x3_def x4_def x5_def)
  with b5 show ?thesis by simp
qed

subsection \<open>Analysis of one goal\<close>

lemma analyze_unfold:
  "analyze_single_goal t n =
     \<lparr> vg_original_text = t,
       vg_smart_assessment =
         \<lparr> a_specific = (check_specific t > fl (4 / 10)),
           a_measurable = (check_measurable t > fl (3 / 10)),
           a_achievable = (check_achievable t > fl (3 / 10)),
           a_relevant = (check_relevant t > fl (3 / 10)),
           a_time_bound = (check_time_bound t > fl (3 / 10)) \<rparr>,
       vg_smart_score =
         py_int (fadd (fadd (fadd (fadd (fadd 0 (fmul (check_specific t) 20))
           (fmul (check_measurable t) 20)) (fmul (check_achievable t) 20))
           (fmul (check_relevant t) 20)) (fmul (check_time_bound t) 20)),
       vg_issues =
         (if check_specific t > fl (4 / 10) then [] else [issue_text Specific])
         @ (if check_measurable t > fl (3 / 10) then [] else [issue_text Measurable])
         @ (if check_achievable t > fl (3 / 10) then [] else [issue_text Achievable])
         @ (if check_relevant t > fl (3 / 10) then [] else [issue_text Relevant])
         @ (if check_time_bound t > fl (3 / 10) then [] else [issue_text Time_Bound]),
       vg_recommendations =
         (if check_specific t > fl (4 / 10) then [] else [recommendation_text Specific])
         @ (if check_measurable t > fl (3 / 10) then [] else [recommendation_text Measurable])
         @ (if check_achievable t > fl (3 / 10) then [] else [recommendation_text Achievable])
         @ (if check_relevant t > fl (3 / 10) then [] else [recommendation_text Relevant])
         @ (if check_time_bound t > fl (3 / 10) then [] else [recommendation_text Time_Bound]) \<rparr>"
  unfolding analyze_single_goal_def Let_def
  by (cases "check_specific t > fl (4 / 10)"; cases "check_measurable t > fl (3 / 10)";
      cases "check_achievable t > fl (3 / 10)"; cases "check_relevant t > fl (3 / 10)";
      cases "check_time_bound t > fl (3 / 10)"; simp)

lemma smart_score_analyze:
  "vg_smart_score (analyze_single_goal t n) = py_int (scaled_sum t)"
  by (simp add: analyze_unfold scaled_sum_unfold)

lemma assessment_analyze:
  "vg_smart_assessment (analyze_single_goal t n) =
     \<lparr> a_specific = (check_specific t > fl (4 / 10)),
       a_measurable = (check_measurable t > fl (3 / 10)),
       a_achievable = (check_achievable t > fl (3 / 10)),
       a_relevant = (check_relevant t > fl (3 / 10)),
       a_time_bound = (check_time_bound t > fl (3 / 10)) \<rparr>"
  by (simp add: analyze_unfold)

lemma issues_analyze:
  "vg_issues (analyze_single_goal t n) =
     map issue_text
       (filter (\<lambda>d. \<not> passes (vg_smart_assessment (analyze_single_goal t n)) d) dimensions)"
  unfolding analyze_unfold dimensions_def
  by (cases "check_specific t > fl (4 / 10)"; cases "check_measurable t > fl (3 / 10)";
      cases "check_achievable t > fl (3 / 10)"; cases "check_relevant t > fl (3 / 10)";
      cases "check_time_bound t > fl (3 / 10)"; simp)

lemma recommendations_analyze:
  "vg_recommendations (analyze_single_goal t n) =
     map recommendation_text
       (filter (\<lambda>d. \<not> passes (vg_smart_assessment (analyze_single_goal t n)) d) dimensions)"
  unfolding analyze_unfold dimensions_def
  by (cases "check_specific t > fl (4 / 10)"; cases "check_measurable t > fl (3 / 10)";
      cases "check_achievable t > fl (3 / 10)"; cases "check_relevant t > fl (3 / 10)";
      cases "check_time_bound t > fl (3 / 10)"; simp)

subsection \<open>The loop of \<open>validate_goals\<close>\<close>

lemma analyze_number:
  "analyze_single_goal t n = analyze_single_goal t 1"
  by (simp only: analyze_unfold)

lemma analyze_loop_goals:
  "fst (analyze_loop goals i validated tot) =
     validated @ map (\<lambda>t. analyze_single_goal t 1) goals"
proof (induction goals arbitrary: i validated tot)
  case Nil
  then show ?case by simp
next
  case (Cons t goals)
  show ?case
    using analyze_number [of t "i + 1"] by (simp add: Let_def Cons.IH)
qed

lemma goals_validate:
  "rp_goals (validate_goals text) = map (\<lambda>t. analyze_single_goal t 1) (extract_goals text)"
proof -
  obtain vs tot where loop: "analyze_loop (extract_goals text) 0 [] 0 = (vs, tot)"
    by (cases "analyze_loop (extract_goals text) 0 [] 0")
  then have "vs = map (\<lambda>t. analyze_single_goal t 1) (extract_goals text)"
    using analyze_loop_goals [of "extract_goals text" 0 "[]" 0] by simp
  then show ?thesis by (simp add: validate_goals_def Let_def loop)
qed

lemma goals_validate_cases:
  assumes "g \<in> set (rp_goals (validate_goals text))"
  obtains t where "g = analyze_single_goal t 1" and "t \<in> set (extract_goals text)"
  using assms unfolding goals_validate by auto

lemma length_goals_validate:
  "length (rp_goals (validate_goals text)) = length (extract_goals text)"
  by (simp add: goals_validate)

lemma recommendations_validate:
  "rp_recommendations (validate_goals text) =
     generate_overall_recommendations (rp_goals (validate_goals text))"
proof -
  obtain vs tot where loop: "analyze_loop (extract_goals text) 0 [] 0 = (vs, tot)"
    by (cases "analyze_loop (extract_goals text) 0 [] 0")
  then show ?thesis by (simp add: validate_goals_def Let_def loop)
qed

subsection \<open>The sample texts, evaluated\<close>




lemma extract_text_vague: "extract_goals text_vague = [text_vague]"
  by code_simp

lemma raw_scores_text_vague:
  "map (\<lambda>d. raw_score d text_vague) dimensions
     = [0, 0, Fract 2702159776422297 9007199254740992, 0, 0]"
  by code_simp

lemma analysis_text_vague:
  "analyze_single_goal text_vague 1 =
     \<lparr> vg_original_text = text_vague,
       vg_smart_assessment =
         \<lparr> a_specific = False, a_measurable = False, a_achievable = False,
           a_relevant = False, a_time_bound = False \<rparr>,
       vg_smart_score = 5,
       vg_issues = map issue_text dimensions,
       vg_recommendations = map recommendation_text dimensions \<rparr>"
  by code_simp

lemma extract_empty: "extract_goals [] = []"
  by code_simp

lemma analysis_text_vague_any:
  "analyze_single_goal text_vague n =
     \<lparr> vg_original_text = text_vague,
       vg_smart_assessment =
         \<lparr> a_specific = False, a_measurable = False, a_achievable = False,
           a_relevant = False, a_time_bound = False \<rparr>,
       vg_smart_score = 5,
       vg_issues = map issue_text dimensions,
       vg_recommendations = map recommendation_text dimensions \<rparr>"
  using analyze_number [of text_vague n] by (simp only: analysis_text_vague)

lemma goals_text_vague:
  "rp_goals (validate_goals text_vague) = [analyze_single_goal text_vague n]"
  using analyze_number [of text_vague n] by (simp add: goals_validate extract_text_vague)

lemma check_scores_text_vague:
  "check_specific text_vague = 0" "check_measurable text_vague = 0"
  "check_achievable text_vague = Fract 2702159776422297 9007199254740992"
  "check_relevant text_vague = 0" "check_time_bound text_vague = 0"
  using raw_scores_text_vague by (simp_all add: dimensions_def)

lemma scaled_sum_value:
  "fadd (fadd (fadd (fadd (fadd 0 (fmul 0 20)) (fmul 0 20))
      (fmul (Fract 2702159776422297 9007199254740992) 20)) (fmul 0 20)) (fmul 0 20)
   = Fract 3377699720527871 562949953421312"
  by code_simp

lemma scaled_sum_text_vague:
  "scaled_sum text_vague = Fract 3377699720527871 562949953421312"
  by (simp only: scaled_sum_unfold check_scores_text_vague scaled_sum_value)

lemma round_scaled_sum_value:
  "round_half_even (Fract 3377699720527871 562949953421312) = 6"
  by code_simp

lemma round_exact_sum_value:
  "round_half_even (sum_list [0, 0, Fract 2702159776422297 9007199254740992, 0, 0] * 20) = 6"
  by code_simp

lemma floor_scaled_sum_value:
  "\<lfloor>Fract 3377699720527871 562949953421312\<rfloor> = 5"
  by code_simp

subsection \<open>Overall recommendations\<close>

lemma fl_half: "fl (5 / 10) = 1 / 2"
proof -
  have "rnd (of_int 1 / 2) = of_int 1 / 2" by (rule rnd_exact_half) simp_all
  then have "rnd (1 / 2) = 1 / 2" by simp
  moreover have "(5 / 10 :: rat) = 1 / 2" by simp
  ultimately show ?thesis by (simp only: fl_def)
qed

lemma half_threshold:
  assumes "n < 2 ^ 53"
  shows "fmul (of_int (int n)) (fl (5 / 10)) = of_int (int n) / 2"
proof -
  have "int n < 2 ^ 53" using assms by (metis of_nat_less_numeral_power_cancel_iff)
  then have "rnd (of_int (int n) / 2) = of_int (int n) / 2"
    by (intro rnd_exact_half) simp_all
  moreover have "of_int (int n) * (1 / 2 :: rat) = of_int (int n) / 2" by simp
  ultimately show ?thesis by (simp only: fmul_def fl_half)
qed

lemma get_count_update:
  "get_count (m(k \<mapsto> v)) k' = (if k' = k then v else get_count m k')"
  by (simp add: get_count_def)

lemma get_count_count_issues:
  "get_count (count_issues issues m) k =
     get_count m k + int (count_list (map issue_type_of issues) k)"
proof (induction issues arbitrary: m)
  case Nil
  then show ?case by simp
next
  case (Cons i issues)
  define m' where "m' = m(issue_type_of i \<mapsto> get_count m (issue_type_of i) + 1)"
  have step: "count_issues (i # issues) m = count_issues issues m'"
    by (simp add: Let_def m'_def get_count_def)
  have "get_count (count_issues (i # issues) m) k
        = get_count m' k + int (count_list (map issue_type_of issues) k)"
    unfolding step by (rule Cons.IH)
  also have "get_count m' k = (if k = issue_type_of i then get_count m k + 1 else get_count m k)"
    unfolding m'_def by (simp add: get_count_update)
  finally show ?case by simp
qed

lemma get_count_empty: "get_count Map.empty k = 0"
  by (simp add: get_count_def)

lemma issue_type_specific:
  "issue_type_of ''Goal lacks specificity - too vague or general'' = ''Goal lacks specificity''"
  by code_simp

lemma issue_type_measurable:
  "issue_type_of ''Goal lacks measurable success criteria'' = ''Goal lacks measurable success criteria''"
  by code_simp

lemma issue_type_achievable:
  "issue_type_of ''Goal may be unrealistic or overly ambitious''
     = ''Goal may be unrealistic or overly ambitious''"
  by code_simp

lemma issue_type_relevant:
  "issue_type_of ''Goal lacks clear business relevance or value''
     = ''Goal lacks clear business relevance or value''"
  by code_simp

lemma issue_type_time_bound:
  "issue_type_of ''Goal lacks clear timeline or deadline'' = ''Goal lacks clear timeline or deadline''"
  by code_simp

lemmas issue_types = issue_type_specific issue_type_measurable issue_type_achievable
  issue_type_relevant issue_type_time_bound

lemma type_is_specific:
  "issue_type_of (issue_text d) = ''Goal lacks specificity'' \<longleftrightarrow> d = Specific"
  by (cases d) (simp_all add: issue_types)

lemma type_is_measurable:
  "issue_type_of (issue_text d) = ''Goal lacks measurable success criteria'' \<longleftrightarrow> d = Measurable"
  by (cases d) (simp_all add: issue_types)

lemma count_list_map_filter:
  "count_list (map f (filter P xs)) k = length (filter (\<lambda>x. P x \<and> f x = k) xs)"
  by (induction xs) simp_all

lemma type_counts_analyze:
  "count_list (map issue_type_of (vg_issues (analyze_single_goal t n))) ''Goal lacks specificity''
     = (if passes (vg_smart_assessment (analyze_single_goal t n)) Specific then 0 else 1)"
  "count_list (map issue_type_of (vg_issues (analyze_single_goal t n)))
       ''Goal lacks measurable success criteria''
     = (if passes (vg_smart_assessment (analyze_single_goal t n)) Measurable then 0 else 1)"
proof -
  define a where "a = vg_smart_assessment (analyze_single_goal t n)"
  have issues: "map issue_type_of (vg_issues (analyze_single_goal t n))
      = map (\<lambda>d. issue_type_of (issue_text d)) (filter (\<lambda>d. \<not> passes a d) dimensions)"
    unfolding a_def by (subst issues_analyze) (simp add: comp_def)
  show "count_list (map issue_type_of (vg_issues (analyze_single_goal t n))) ''Goal lacks specificity''
     = (if passes (vg_smart_assessment (analyze_single_goal t n)) Specific then 0 else 1)"
    unfolding issues count_list_map_filter type_is_specific a_def [symmetric]
    by (simp add: dimensions_def del: passes.simps)
  show "count_list (map issue_type_of (vg_issues (analyze_single_goal t n)))
       ''Goal lacks measurable success criteria''
     = (if passes (vg_smart_assessment (analyze_single_goal t n)) Measurable then 0 else 1)"
    unfolding issues count_list_map_filter type_is_measurable a_def [symmetric]
    by (simp add: dimensions_def del: passes.simps)
qed

lemma count_list_concat:
  "count_list (map f (concat xss)) k = sum_list (map (\<lambda>xs. count_list (map f xs) k) xss)"
  by (induction xss) (simp_all add: count_list_append)

lemma failed_count_sum:
  "int (failed_count d gs)
     = sum_list (map (\<lambda>g. if passes (vg_smart_assessment g) d then 0 else 1) gs)"
  by (induction gs) (simp_all add: failed_count_def)

lemma type_counts_goals:
  assumes "\<forall>g \<in> set gs. \<exists>t n. g = analyze_single_goal t n"
  shows "int (count_list (map issue_type_of (concat (map vg_issues gs))) ''Goal lacks specificity'')
           = int (failed_count Specific gs)"
    and "int (count_list (map issue_type_of (concat (map vg_issues gs)))
           ''Goal lacks measurable success criteria'')
           = int (failed_count Measurable gs)"
  using assms
proof (induction gs)
  case Nil
  {
    case 1 show ?case by (simp add: failed_count_def)
  next
    case 2 show ?case by (simp add: failed_count_def)
  }
next
  case (Cons g gs)
  {
    case 1
    then obtain t n where g: "g = analyze_single_goal t n" by auto
    from 1 have "\<forall>g \<in> set gs. \<exists>t n. g = analyze_single_goal t n" by simp
    then have "int (count_list (map issue_type_of (concat (map vg_issues gs))) ''Goal lacks specificity'')
           = int (failed_count Specific gs)" by (rule Cons.IH(1))
    then show ?case
      by (simp add: count_list_append g type_counts_analyze(1) failed_count_def del: passes.simps)
  next
    case 2
    then obtain t n where g: "g = analyze_single_goal t n" by auto
    from 2 have "\<forall>g \<in> set gs. \<exists>t n. g = analyze_single_goal t n" by simp
    then have "int (count_list (map issue_type_of (concat (map vg_issues gs)))
           ''Goal lacks measurable success criteria'')
           = int (failed_count Measurable gs)" by (rule Cons.IH(2))
    then show ?case
      by (simp add: count_list_append g type_counts_analyze(2) failed_count_def del: passes.simps)
  }
qed

lemma targeted_unfold:
  "targeted_recommendations gs =
     (if of_int (get_count (count_issues (concat (map vg_issues gs)) Map.empty) ''Goal lacks specificity'')
           > fmul (of_int (int (length gs))) (fl (5 / 10))
      then [''Focus on making goals more specific and actionable''] else [])
     @ (if of_int (get_count (count_issues (concat (map vg_issues gs)) Map.empty)
             ''Goal lacks measurable success criteria'')
           > fmul (of_int (int (length gs))) (fl (5 / 10))
        then [''Add quantifiable metrics and KPIs to all goals''] else [])
     @ (if of_int (get_count (count_issues (concat (map vg_issues gs)) Map.empty)
             ''Goal lacks clear timeline'')
           > fmul (of_int (int (length gs))) (fl (5 / 10))
        then [''Establish clear deadlines and milestones for all goals''] else [])
     @ (if of_int (get_count (count_issues (concat (map vg_issues gs)) Map.empty)
             ''Goal lacks clear business relevance'')
           > fmul (of_int (int (length gs))) (fl (5 / 10))
        then [''Clearly articulate business value and impact for each goal''] else [])"
  unfolding targeted_recommendations_def Let_def
  by (cases "of_int (get_count (count_issues (concat (map vg_issues gs)) Map.empty) ''Goal lacks specificity'')
           > fmul (of_int (int (length gs))) (fl (5 / 10))";
      cases "of_int (get_count (count_issues (concat (map vg_issues gs)) Map.empty)
             ''Goal lacks measurable success criteria'')
           > fmul (of_int (int (length gs))) (fl (5 / 10))";
      cases "of_int (get_count (count_issues (concat (map vg_issues gs)) Map.empty)
             ''Goal lacks clear timeline'')
           > fmul (of_int (int (length gs))) (fl (5 / 10))";
      cases "of_int (get_count (count_issues (concat (map vg_issues gs)) Map.empty)
             ''Goal lacks clear business relevance'')
           > fmul (of_int (int (length gs))) (fl (5 / 10))"; simp)

lemma length_targeted: "length (targeted_recommendations gs) \<le> 4"
  unfolding targeted_unfold by simp

lemma set_targeted:
  "set (targeted_recommendations gs)
     \<subseteq> {''Focus on making goals more specific and actionable'',
         ''Add quantifiable metrics and KPIs to all goals'',
         ''Establish clear deadlines and milestones for all goals'',
         ''Clearly articulate business value and impact for each goal''}"
  unfolding targeted_unfold by auto

lemma threshold_iff:
  assumes "n < 2 ^ 53"
  shows "(of_int (int c) > fmul (of_int (int n)) (fl (5 / 10))) \<longleftrightarrow> n < 2 * c"
proof -
  have "(of_int (int c) > (of_int (int n) / 2 :: rat)) \<longleftrightarrow> (of_int (int n) :: rat) < of_int (int (2 * c))"
    by (simp add: field_simps)
  also have "\<dots> \<longleftrightarrow> n < 2 * c" by (simp only: of_int_less_iff of_nat_less_iff)
  finally show ?thesis by (simp only: half_threshold [OF assms])
qed

lemma targeted_members:
  assumes "\<forall>g \<in> set gs. \<exists>t n. g = analyze_single_goal t n" and "length gs < 2 ^ 53"
  shows "''Focus on making goals more specific and actionable'' \<in> set (targeted_recommendations gs)
           \<longleftrightarrow> length gs < 2 * failed_count Specific gs"
    and "''Add quantifiable metrics and KPIs to all goals'' \<in> set (targeted_recommendations gs)
           \<longleftrightarrow> length gs < 2 * failed_count Measurable gs"
proof -
  have c1: "get_count (count_issues (concat (map vg_issues gs)) Map.empty) ''Goal lacks specificity''
        = int (failed_count Specific gs)"
    by (simp only: get_count_count_issues get_count_empty type_counts_goals(1) [OF assms(1)] add_0)
  have c2: "get_count (count_issues (concat (map vg_issues gs)) Map.empty)
          ''Goal lacks measurable success criteria''
        = int (failed_count Measurable gs)"
    by (simp only: get_count_count_issues get_count_empty type_counts_goals(2) [OF assms(1)] add_0)
  show "''Focus on making goals more specific and actionable'' \<in> set (targeted_recommendations gs)
           \<longleftrightarrow> length gs < 2 * failed_count Specific gs"
    unfolding targeted_unfold c1 threshold_iff [OF assms(2)] by simp
  show "''Add quantifiable metrics and KPIs to all goals'' \<in> set (targeted_recommendations gs)
           \<longleftrightarrow> length gs < 2 * failed_count Measurable gs"
    unfolding targeted_unfold c2 threshold_iff [OF assms(2)] by simp
qed

lemma targeted_nil: "targeted_recommendations [] = []"
  by (simp add: targeted_unfold get_count_empty fmul_def rnd_def)

lemma goals_are_analyses:
  "\<forall>g \<in> set (rp_goals (validate_goals text)). \<exists>t n. g = analyze_single_goal t n"
  unfolding goals_validate by auto

lemma length_goals_small: "length (rp_goals (validate_goals text)) < 2 ^ 53"
proof -
  have "length (rp_goals (validate_goals text)) \<le> 10"
    by (simp add: goals_validate length_extract_goals)
  then show ?thesis by simp
qed

lemma failed_counts_text_vague:
  "failed_count d (rp_goals (validate_goals text_vague)) = 1"
  by (cases d) (simp_all add: goals_text_vague [of 1] failed_count_def analysis_text_vague_any)

lemma overall_text_vague:
  "generate_overall_recommendations
     [\<lparr> vg_original_text = text_vague,
        vg_smart_assessment =
          \<lparr> a_specific = False, a_measurable = False, a_achievable = False,
            a_relevant = False, a_time_bound = False \<rparr>,
        vg_smart_score = 5,
        vg_issues = map issue_text dimensions,
        vg_recommendations = map recommendation_text dimensions \<rparr>]
   = [''Focus on making goals more specific and actionable'',
      ''Add quantifiable metrics and KPIs to all goals'',
      ''Consider breaking down large goals into smaller, manageable objectives'',
      ''Ensure goals align with overall PI objectives and business strategy'',
      ''Review and validate goals with key stakeholders'',
      ''Establish regular check-ins and progress reviews'']"
  by code_simp

lemma recommendations_text_vague:
  "rp_recommendations (validate_goals text_vague)
   = [''Focus on making goals more specific and actionable'',
      ''Add quantifiable metrics and KPIs to all goals'',
      ''Consider breaking down large goals into smaller, manageable objectives'',
      ''Ensure goals align with overall PI objectives and business strategy'',
      ''Review and validate goals with key stakeholders'',
      ''Establish regular check-ins and progress reviews'']"
  by (simp only: recommendations_validate goals_text_vague [of 1] analysis_text_vague_any
      overall_text_vague)

subsection \<open>C1: the minimum length of a goal\<close>




subsection \<open>C2: the overall recommendations\<close>

text \<open>
  Claim C2, as amended. The overall recommendations of a report are the targeted
  recommendations followed by the four general ones, cut to six entries. For the
  dimensions specific and measurable, in this order, the targeted recommendation of the
  dimension is added exactly when strictly more than half of the analyzed goals failed it.
  No recommendation exists for the achievable dimension: the only other entries that the
  targeted part can hold are the timeline and the business relevance recommendation.
\<close>

theorem overall_recommendations:
  "rp_recommendations (validate_goals text)
     = take 6 (targeted_recommendations (rp_goals (validate_goals text)) @ general_recommendations)
   \<and> general_recommendations =
       [''Consider breaking down large goals into smaller, manageable objectives'',
        ''Ensure goals align with overall PI objectives and business strategy'',
        ''Review and validate goals with key stakeholders'',
        ''Establish regular check-ins and progress reviews'']
   \<and> length (rp_recommendations (validate_goals text)) \<le> 6
   \<and> (\<exists>others.
         set others \<subseteq> {''Establish clear deadlines and milestones for all goals'',
                         ''Clearly articulate business value and impact for each goal''}
         \<and> targeted_recommendations (rp_goals (validate_goals text))
             = (if length (rp_goals (validate_goals text))
                     < 2 * failed_count Specific (rp_goals (validate_goals text))
                then [''Focus on making goals more specific and actionable''] else [])
               @ (if length (rp_goals (validate_goals text))
                       < 2 * failed_count Measurable (rp_goals (validate_goals text))
                  then [''Add quantifiable metrics and KPIs to all goals''] else [])
               @ others)
   \<and> (''Focus on making goals more specific and actionable''
          \<in> set (rp_recommendations (validate_goals text))
        \<longleftrightarrow> length (rp_goals (validate_goals text))
              < 2 * failed_count Specific (rp_goals (validate_goals text)))
   \<and> (''Add quantifiable metrics and KPIs to all goals''
          \<in> set (rp_recommendations (validate_goals text))
        \<longleftrightarrow> length (rp_goals (validate_goals text))
              < 2 * failed_count Measurable (rp_goals (validate_goals text)))"
proof -
  define gs where "gs = rp_goals (validate_goals text)"
  define recs where "recs = rp_recommendations (validate_goals text)"
  have an: "\<forall>g \<in> set gs. \<exists>t n. g = analyze_single_goal t n"
    unfolding gs_def by (rule goals_are_analyses)
  have small: "length gs < 2 ^ 53" unfolding gs_def by (rule length_goals_small)
  have c1: "get_count (count_issues (concat (map vg_issues gs)) Map.empty) ''Goal lacks specificity''
        = int (failed_count Specific gs)"
    by (simp only: get_count_count_issues get_count_empty type_counts_goals(1) [OF an] add_0)
  have c2: "get_count (count_issues (concat (map vg_issues gs)) Map.empty)
          ''Goal lacks measurable success criteria''
        = int (failed_count Measurable gs)"
    by (simp only: get_count_count_issues get_count_empty type_counts_goals(2) [OF an] add_0)
  define others where "others =
     (if of_int (get_count (count_issues (concat (map vg_issues gs)) Map.empty)
             ''Goal lacks clear timeline'')
           > fmul (of_int (int (length gs))) (fl (5 / 10))
      then [''Establish clear deadlines and milestones for all goals''] else [])
     @ (if of_int (get_count (count_issues (concat (map vg_issues gs)) Map.empty)
             ''Goal lacks clear business relevance'')
           > fmul (of_int (int (length gs))) (fl (5 / 10))
        then [''Clearly articulate business value and impact for each goal''] else [])"
  have others: "set others \<subseteq> {''Establish clear deadlines and milestones for all goals'',
                         ''Clearly articulate business value and impact for each goal''}"
    unfolding others_def by auto
  have shape: "targeted_recommendations gs
             = (if length gs < 2 * failed_count Specific gs
                then [''Focus on making goals more specific and actionable''] else [])
               @ (if length gs < 2 * failed_count Measurable gs
                  then [''Add quantifiable metrics and KPIs to all goals''] else [])
               @ others"
    unfolding targeted_unfold c1 c2 threshold_iff [OF small] others_def by simp
  have eq: "recs = take 6 (targeted_recommendations gs @ general_recommendations)"
    unfolding recs_def gs_def
    by (simp add: recommendations_validate generate_overall_recommendations_def)
  have len: "length recs \<le> 6" unfolding eq by simp
  have lt: "length (targeted_recommendations gs) \<le> 4" by (rule length_targeted)
  have gen: "general_recommendations =
       [''Consider breaking down large goals into smaller, manageable objectives'',
        ''Ensure goals align with overall PI objectives and business strategy'',
        ''Review and validate goals with key stakeholders'',
        ''Establish regular check-ins and progress reviews'']"
    by (simp add: general_recommendations_def)
  have split: "recs = targeted_recommendations gs
                 @ take (6 - length (targeted_recommendations gs)) general_recommendations"
    unfolding eq using lt by simp
  have notgen1: "''Focus on making goals more specific and actionable''
                   \<notin> set general_recommendations"
    by (simp add: gen)
  have notgen2: "''Add quantifiable metrics and KPIs to all goals'' \<notin> set general_recommendations"
    by (simp add: gen)
  have m1: "''Focus on making goals more specific and actionable'' \<in> set recs
        \<longleftrightarrow> length gs < 2 * failed_count Specific gs"
  proof -
    have "''Focus on making goals more specific and actionable'' \<in> set recs
          \<longleftrightarrow> ''Focus on making goals more specific and actionable''
                \<in> set (targeted_recommendations gs)"
      unfolding split using notgen1 by (auto dest: in_set_takeD)
    then show ?thesis by (simp only: targeted_members(1) [OF an small])
  qed
  have m2: "''Add quantifiable metrics and KPIs to all goals'' \<in> set recs
        \<longleftrightarrow> length gs < 2 * failed_count Measurable gs"
  proof -
    have "''Add quantifiable metrics and KPIs to all goals'' \<in> set recs
          \<longleftrightarrow> ''Add quantifiable metrics and KPIs to all goals''
                \<in> set (targeted_recommendations gs)"
      unfolding split using notgen2 by (auto dest: in_set_takeD)
    then show ?thesis by (simp only: targeted_members(2) [OF an small])
  qed
  from others shape have ex: "\<exists>others.
         set others \<subseteq> {''Establish clear deadlines and milestones for all goals'',
                         ''Clearly articulate business value and impact for each goal''}
         \<and> targeted_recommendations gs
             = (if length gs < 2 * failed_count Specific gs
                then [''Focus on making goals more specific and actionable''] else [])
               @ (if length gs < 2 * failed_count Measurable gs
                  then [''Add quantifiable metrics and KPIs to all goals''] else [])
               @ others"
    by blast
  from eq gen len ex m1 m2 show ?thesis unfolding gs_def recs_def by blast
qed

text \<open>
  The report of the sample text: its one goal fails specific and measurable, and both
  targeted recommendations are in the report.
\<close>

theorem overall_recommendations_witness:
  "length (rp_goals (validate_goals text_vague))
     < 2 * failed_count Specific (rp_goals (validate_goals text_vague))
   \<and> ''Focus on making goals more specific and actionable''
        \<in> set (rp_recommendations (validate_goals text_vague))
   \<and> length (rp_goals (validate_goals text_vague))
     < 2 * failed_count Measurable (rp_goals (validate_goals text_vague))
   \<and> ''Add quantifiable metrics and KPIs to all goals''
        \<in> set (rp_recommendations (validate_goals text_vague))
   \<and> length (rp_recommendations (validate_goals text_vague)) \<le> 6"
proof -
  have n: "length (rp_goals (validate_goals text_vague)) = 1"
    by (simp add: goals_text_vague [of 1])
  have h1: "length (rp_goals (validate_goals text_vague))
     < 2 * failed_count Specific (rp_goals (validate_goals text_vague))"
    unfolding n failed_counts_text_vague by simp
  have h2: "length (rp_goals (validate_goals text_vague))
     < 2 * failed_count Measurable (rp_goals (validate_goals text_vague))"
    unfolding n failed_counts_text_vague by simp
  note inst = overall_recommendations [of text_vague]
  from inst h1 have r1: "''Focus on making goals more specific and actionable''
        \<in> set (rp_recommendations (validate_goals text_vague))" by blast
  from inst h2 have r2: "''Add quantifiable metrics and KPIs to all goals''
        \<in> set (rp_recommendations (validate_goals text_vague))" by blast
  from inst have r3: "length (rp_recommendations (validate_goals text_vague)) \<le> 6" by blast
  from h1 r1 h2 r2 r3 show ?thesis by blast
qed

text \<open>
  The claim as stated adds a targeted recommendation for each dimension that more than
  half of the goals failed. The one goal of the sample text fails all five dimensions,
  achievable among them, and its report holds two targeted recommendations only, followed
  by the four general ones: the code has no test and no text for the achievable dimension.
\<close>

theorem overall_recommendations_counterexample:
  "rp_goals_count (validate_goals text_vague) = 1
   \<and> failed_count Achievable (rp_goals (validate_goals text_vague)) = 1
   \<and> failed_count Relevant (rp_goals (validate_goals text_vague)) = 1
   \<and> failed_count Time_Bound (rp_goals (validate_goals text_vague)) = 1
   \<and> rp_recommendations (validate_goals text_vague)
     = [''Focus on making goals more specific and actionable'',
        ''Add quantifiable metrics and KPIs to all goals'',
        ''Consider breaking down large goals into smaller, manageable objectives'',
        ''Ensure goals align with overall PI objectives and business strategy'',
        ''Review and validate goals with key stakeholders'',
        ''Establish regular check-ins and progress reviews'']"
proof -
  have "rp_goals_count (validate_goals text_vague) = 1"
    by (simp add: validate_goals_def Let_def extract_text_vague split: prod.splits)
  then show ?thesis
    by (simp only: failed_counts_text_vague recommendations_text_vague simp_thms)
qed

subsection \<open>C3: the score of a goal\<close>

text \<open>
  Claim C3, as amended. The score of a goal is the float sum, in dimension order, of the
  five raw scores each multiplied by 20, truncated by \<open>int()\<close> (which is the floor, the
  sum not being negative); it is not rounded. Every raw score is clamped to the interval
  from 0 to 1, and the score is an integer from 0 to 100, for every goal text and for every
  goal in a report of \<open>validate_goals\<close>.
\<close>

theorem smart_score_truncated:
  "vg_smart_score (analyze_single_goal goal_text n) = \<lfloor>scaled_sum goal_text\<rfloor>
   \<and> vg_smart_score (analyze_single_goal goal_text n) = py_int (scaled_sum goal_text)
   \<and> list_all (\<lambda>d. 0 \<le> raw_score d goal_text \<and> raw_score d goal_text \<le> 1) dimensions
   \<and> 0 \<le> vg_smart_score (analyze_single_goal goal_text n)
   \<and> vg_smart_score (analyze_single_goal goal_text n) \<le> 100
   \<and> (\<forall>g \<in> set (rp_goals (validate_goals text)). 0 \<le> vg_smart_score g \<and> vg_smart_score g \<le> 100)"
proof -
  have score: "vg_smart_score (analyze_single_goal t k) = \<lfloor>scaled_sum t\<rfloor>" for t k
    using scaled_sum_bounds [of t] by (simp add: smart_score_analyze py_int_def)
  have range: "0 \<le> vg_smart_score (analyze_single_goal t k)
               \<and> vg_smart_score (analyze_single_goal t k) \<le> 100" for t k
  proof -
    have "0 \<le> scaled_sum t" and "scaled_sum t \<le> of_int 100"
      using scaled_sum_bounds [of t] by simp_all
    then have "0 \<le> \<lfloor>scaled_sum t\<rfloor>" and "\<lfloor>scaled_sum t\<rfloor> \<le> 100"
      by (simp_all add: floor_le_iff le_floor_iff)
    then show ?thesis by (simp add: score)
  qed
  have all: "\<forall>g \<in> set (rp_goals (validate_goals text)). 0 \<le> vg_smart_score g \<and> vg_smart_score g \<le> 100"
  proof
    fix g assume "g \<in> set (rp_goals (validate_goals text))"
    then obtain t where "g = analyze_single_goal t 1" by (rule goals_validate_cases)
    then show "0 \<le> vg_smart_score g \<and> vg_smart_score g \<le> 100" using range by simp
  qed
  have raw: "list_all (\<lambda>d. 0 \<le> raw_score d goal_text \<and> raw_score d goal_text \<le> 1) dimensions"
    by (simp add: list_all_iff raw_score_bounds)
  from score [of goal_text n] smart_score_analyze [of goal_text n] raw range [of goal_text n] all
  show ?thesis by blast
qed

text \<open>The goal of the sample text has score 5, the floor of 5.999999999999998.\<close>

theorem smart_score_truncated_witness:
  "analyze_single_goal text_vague 1 \<in> set (rp_goals (validate_goals text_vague))
   \<and> vg_smart_score (analyze_single_goal text_vague 1) = 5
   \<and> \<lfloor>scaled_sum text_vague\<rfloor> = 5
   \<and> 0 \<le> vg_smart_score (analyze_single_goal text_vague 1)
   \<and> vg_smart_score (analyze_single_goal text_vague 1) \<le> 100"
proof -
  have mem: "analyze_single_goal text_vague 1 \<in> set (rp_goals (validate_goals text_vague))"
    by (simp add: goals_text_vague [of 1])
  have floor5: "\<lfloor>scaled_sum text_vague\<rfloor> = 5"
    by (simp only: scaled_sum_text_vague floor_scaled_sum_value)
  note inst = smart_score_truncated [of text_vague 1 text_vague]
  from inst have "vg_smart_score (analyze_single_goal text_vague 1) = \<lfloor>scaled_sum text_vague\<rfloor>"
    by blast
  with floor5 have five: "vg_smart_score (analyze_single_goal text_vague 1) = 5" by simp
  from inst mem have "0 \<le> vg_smart_score (analyze_single_goal text_vague 1)
    \<and> vg_smart_score (analyze_single_goal text_vague 1) \<le> 100" by blast
  with mem five floor5 show ?thesis by simp
qed

text \<open>
  The claim as stated rounds: on the sample text the raw scores are 0, 0,
  0.29999999999999993 (that is 0.7 - 0.2 - 0.2 in floating point), 0 and 0; twenty times
  their sum rounds to 6, whether the sum is exact or in floating point, and the code
  returns 5.
\<close>

theorem smart_score_round_counterexample:
  "vg_smart_score (analyze_single_goal text_vague 1) = 5
   \<and> round_half_even (sum_list (map (\<lambda>d. raw_score d text_vague) dimensions) * 20) = 6
   \<and> round_half_even (scaled_sum text_vague) = 6"
proof (intro conjI)
  show "vg_smart_score (analyze_single_goal text_vague 1) = 5"
    by (simp add: analysis_text_vague_any)
  show "round_half_even (sum_list (map (\<lambda>d. raw_score d text_vague) dimensions) * 20) = 6"
    by (simp only: raw_scores_text_vague round_exact_sum_value)
  show "round_half_even (scaled_sum text_vague) = 6"
    by (simp only: scaled_sum_text_vague round_scaled_sum_value)
qed

subsection \<open>C6: one issue per failed dimension\<close>

text \<open>
  Claim C6. The issues of an analyzed goal are the fixed issue texts of the dimensions whose
  assessment is false, in dimension order, and its recommendations are the fixed
  recommendation texts of the same dimensions; so the number of issues is the number of
  failed dimensions. This holds for every goal text and for every goal of a report.
\<close>

theorem issues_per_failed_dimension:
  "vg_issues (analyze_single_goal goal_text n) =
     map issue_text
       (filter (\<lambda>d. \<not> passes (vg_smart_assessment (analyze_single_goal goal_text n)) d) dimensions)
   \<and> vg_recommendations (analyze_single_goal goal_text n) =
     map recommendation_text
       (filter (\<lambda>d. \<not> passes (vg_smart_assessment (analyze_single_goal goal_text n)) d) dimensions)
   \<and> (\<forall>g \<in> set (rp_goals (validate_goals text)).
        length (vg_issues g)
          = length (filter (\<lambda>d. \<not> passes (vg_smart_assessment g) d) dimensions)
        \<and> vg_issues g
          = map issue_text (filter (\<lambda>d. \<not> passes (vg_smart_assessment g) d) dimensions)
        \<and> vg_recommendations g
          = map recommendation_text (filter (\<lambda>d. \<not> passes (vg_smart_assessment g) d) dimensions))"
proof (intro conjI ballI)
  show "vg_issues (analyze_single_goal goal_text n) =
     map issue_text
       (filter (\<lambda>d. \<not> passes (vg_smart_assessment (analyze_single_goal goal_text n)) d) dimensions)"
    by (rule issues_analyze)
  show "vg_recommendations (analyze_single_goal goal_text n) =
     map recommendation_text
       (filter (\<lambda>d. \<not> passes (vg_smart_assessment (analyze_single_goal goal_text n)) d) dimensions)"
    by (rule recommendations_analyze)
next
  fix g assume "g \<in> set (rp_goals (validate_goals text))"
  then obtain t where g: "g = analyze_single_goal t 1" by (rule goals_validate_cases)
  show i: "vg_issues g
          = map issue_text (filter (\<lambda>d. \<not> passes (vg_smart_assessment g) d) dimensions)"
    unfolding g by (rule issues_analyze)
  show "vg_recommendations g
          = map recommendation_text (filter (\<lambda>d. \<not> passes (vg_smart_assessment g) d) dimensions)"
    unfolding g by (rule recommendations_analyze)
  have "length (vg_issues g)
      = length (map issue_text (filter (\<lambda>d. \<not> passes (vg_smart_assessment g) d) dimensions))"
    by (simp only: i [symmetric])
  then show "length (vg_issues g)
          = length (filter (\<lambda>d. \<not> passes (vg_smart_assessment g) d) dimensions)"
    by simp
qed

text \<open>The goal of the sample text fails all five dimensions and has five issues.\<close>

theorem issues_per_failed_dimension_witness:
  "analyze_single_goal text_vague 1 \<in> set (rp_goals (validate_goals text_vague))
   \<and> length (vg_issues (analyze_single_goal text_vague 1)) = 5
   \<and> filter (\<lambda>d. \<not> passes (vg_smart_assessment (analyze_single_goal text_vague 1)) d) dimensions
       = dimensions
   \<and> vg_issues (analyze_single_goal text_vague 1) = map issue_text dimensions
   \<and> vg_recommendations (analyze_single_goal text_vague 1) = map recommendation_text dimensions"
proof -
  have mem: "analyze_single_goal text_vague 1 \<in> set (rp_goals (validate_goals text_vague))"
    by (simp add: goals_text_vague [of 1])
  have fails: "filter (\<lambda>d. \<not> passes (vg_smart_assessment (analyze_single_goal text_vague 1)) d)
      dimensions = dimensions"
    by (simp add: analysis_text_vague_any dimensions_def)
  note inst = issues_per_failed_dimension [of text_vague 1 text_vague]
  from inst mem fails show ?thesis by (auto simp: dimensions_def)
qed

subsection \<open>C9: a text without goals\<close>

text \<open>
  Claim C9. When segmentation finds no goal, the report has goal count 0, an empty goal
  list, score 0 and exactly the four general recommendations.
\<close>

theorem no_goals_report:
  "extract_goals text = [] \<Longrightarrow>
     rp_goals_count (validate_goals text) = 0
     \<and> rp_goals (validate_goals text) = []
     \<and> rp_smart_score (validate_goals text) = 0
     \<and> rp_recommendations (validate_goals text) =
         [''Consider breaking down large goals into smaller, manageable objectives'',
          ''Ensure goals align with overall PI objectives and business strategy'',
          ''Review and validate goals with key stakeholders'',
          ''Establish regular check-ins and progress reviews'']
     \<and> length (rp_recommendations (validate_goals text)) = 4"
proof -
  assume empty: "extract_goals text = []"
  have recs: "generate_overall_recommendations [] =
         [''Consider breaking down large goals into smaller, manageable objectives'',
          ''Ensure goals align with overall PI objectives and business strategy'',
          ''Review and validate goals with key stakeholders'',
          ''Establish regular check-ins and progress reviews'']"
    by (simp add: generate_overall_recommendations_def targeted_nil general_recommendations_def)
  show ?thesis
    by (simp add: validate_goals_def Let_def empty recs)
qed

text \<open>The empty text has no goal.\<close>

theorem no_goals_report_witness:
  "extract_goals [] = []
   \<and> rp_goals_count (validate_goals []) = 0
   \<and> rp_goals (validate_goals []) = []
   \<and> rp_smart_score (validate_goals []) = 0
   \<and> length (rp_recommendations (validate_goals [])) = 4"
  using no_goals_report [OF extract_empty] extract_empty by simp

end
